theory Spec2Isabelle
  imports Main
begin

section \<open>Python strings\<close>

text \<open>
  A Python \<open>str\<close> is a \<^typ>\<open>string\<close>; each \<^typ>\<open>char\<close> stands for one code point
  below 256. On these code points \<open>str.lower\<close> moves the letters A to Z and the
  capital letters U+00C0 to U+00DE (all but the multiplication sign U+00D7) up by 32, and
  leaves every other character alone.
\<close>

definition newline :: string where
  "newline = [CHR 0x0A]"

definition lower_char :: "char \<Rightarrow> char" where
  "lower_char c =
     (case map_of
             (zip (''ABCDEFGHIJKLMNOPQRSTUVWXYZ'' @
                   [CHR 0xC0, CHR 0xC1, CHR 0xC2, CHR 0xC3, CHR 0xC4, CHR 0xC5, CHR 0xC6,
                    CHR 0xC7, CHR 0xC8, CHR 0xC9, CHR 0xCA, CHR 0xCB, CHR 0xCC, CHR 0xCD,
                    CHR 0xCE, CHR 0xCF, CHR 0xD0, CHR 0xD1, CHR 0xD2, CHR 0xD3, CHR 0xD4,
                    CHR 0xD5, CHR 0xD6, CHR 0xD8, CHR 0xD9, CHR 0xDA, CHR 0xDB, CHR 0xDC,
                    CHR 0xDD, CHR 0xDE])
                  (''abcdefghijklmnopqrstuvwxyz'' @
                   [CHR 0xE0, CHR 0xE1, CHR 0xE2, CHR 0xE3, CHR 0xE4, CHR 0xE5, CHR 0xE6,
                    CHR 0xE7, CHR 0xE8, CHR 0xE9, CHR 0xEA, CHR 0xEB, CHR 0xEC, CHR 0xED,
                    CHR 0xEE, CHR 0xEF, CHR 0xF0, CHR 0xF1, CHR 0xF2, CHR 0xF3, CHR 0xF4,
                    CHR 0xF5, CHR 0xF6, CHR 0xF8, CHR 0xF9, CHR 0xFA, CHR 0xFB, CHR 0xFC,
                    CHR 0xFD, CHR 0xFE])) c of
        Some d \<Rightarrow> d
      | None \<Rightarrow> c)"

definition lower :: "string \<Rightarrow> string" where
  "lower s = map lower_char s"

text \<open>\<open>ch.isspace()\<close> on the code points below 256.\<close>

definition isspace :: "char \<Rightarrow> bool" where
  "isspace c = (c \<in> set [CHR 0x09, CHR 0x0A, CHR 0x0B, CHR 0x0C, CHR 0x0D,
                          CHR 0x1C, CHR 0x1D, CHR 0x1E, CHR 0x1F, CHR 0x20,
                          CHR 0x85, CHR 0xA0])"

text \<open>\<open>s.strip()\<close>: leading and trailing whitespace removed.\<close>

definition strip :: "string \<Rightarrow> string" where
  "strip s = rev (dropWhile isspace (rev (dropWhile isspace s)))"

definition endswith :: "string \<Rightarrow> string \<Rightarrow> bool" where
  "endswith s t = (length t \<le> length s \<and> drop (length s - length t) s = t)"

text \<open>\<open>sep.join(xs)\<close>.\<close>

fun join :: "string \<Rightarrow> string list \<Rightarrow> string" where
  "join sep [] = []"
| "join sep [x] = x"
| "join sep (x # y # ys) = x @ sep @ join sep (y # ys)"

text \<open>\<open>str(n)\<close> for a Python int: decimal digits, with a minus sign below zero.\<close>

fun digits :: "nat \<Rightarrow> string" where
  "digits n =
     (if n < 10 then [''0123456789'' ! n]
      else digits (n div 10) @ [''0123456789'' ! (n mod 10)])"

declare digits.simps [simp del]

definition str_int :: "int \<Rightarrow> string" where
  "str_int i = (if i < 0 then CHR ''-'' # digits (nat (- i)) else digits (nat i))"

text \<open>\<open>needle in haystack\<close> for two strings.\<close>

fun startswith :: "string \<Rightarrow> string \<Rightarrow> bool" where
  "startswith s [] = True"
| "startswith [] (y # ys) = False"
| "startswith (x # xs) (y # ys) = (x = y \<and> startswith xs ys)"

fun contains :: "string \<Rightarrow> string \<Rightarrow> bool" where
  "contains [] t = (t = [])"
| "contains (x # xs) t = (startswith (x # xs) t \<or> contains xs t)"

text \<open>\<open>s.rfind(c)\<close>: the index of the last occurrence of \<open>c\<close>, or \<open>-1\<close>.\<close>

fun rfind :: "string \<Rightarrow> char \<Rightarrow> int" where
  "rfind [] c = - 1"
| "rfind (x # xs) c =
     (let r = rfind xs c in if 0 \<le> r then r + 1 else if x = c then 0 else - 1)"


section \<open>pathlib\<close>

text \<open>
  A \<open>Path\<close> is the list of its components below the root: the files the two applications
  work on come from a file dialog or from the tree of the explorer, and are absolute.
  \<open>suffix\<close>, \<open>stem\<close> and \<open>with_suffix\<close> follow pathlib: the suffix starts at the last
  dot of the final component, unless that dot is its first or its last character.
\<close>

datatype path = Path (parts: "string list")

definition path_name :: "path \<Rightarrow> string" where
  "path_name p = (if parts p = [] then [] else last (parts p))"

definition parent :: "path \<Rightarrow> path" where
  "parent p = Path (butlast (parts p))"

definition joinpath :: "path \<Rightarrow> string \<Rightarrow> path" where
  "joinpath p s = Path (parts p @ [s])"

definition path_str :: "path \<Rightarrow> string" where
  "path_str p = ''/'' @ join ''/'' (parts p)"

definition path_suffix :: "path \<Rightarrow> string" where
  "path_suffix p =
     (let n = path_name p; i = rfind n CHR ''.''
      in if 0 < i \<and> i < int (length n) - 1 then drop (nat i) n else [])"

definition stem :: "path \<Rightarrow> string" where
  "stem p =
     (let n = path_name p; i = rfind n CHR ''.''
      in if 0 < i \<and> i < int (length n) - 1 then take (nat i) n else n)"

text \<open>
  \<open>with_suffix\<close> raises on a path with an empty name; both sources call it only in a
  branch that has matched a non-empty extension, where the name is not empty.
\<close>

definition with_suffix :: "path \<Rightarrow> string \<Rightarrow> path" where
  "with_suffix p s = joinpath (parent p) (stem p @ s)"


section \<open>The operating system\<close>

text \<open>
  The file system maps the paths that exist to their text. What a child process prints,
  returns and writes is not decided by the sources: it is a parameter of the model, as
  are the executable search path and the failures of \<open>mkdir\<close> and \<open>write_text\<close>.
  \<open>subprocess.run\<close> ends in one of three ways: it raises before a child exists (the
  executable is missing or may not be executed), it raises after the child has run and
  written its files (with \<open>text=True\<close>, when the captured bytes do not decode), or it
  returns the completed process.
\<close>

type_synonym fs = "path \<Rightarrow> string option"

datatype completed_process =
  CompletedProcess (stdout: string) (stderr: string) (returncode: int)

datatype run_result =
    Spawn_failed string
  | Decode_failed string
  | Completed completed_process

text \<open>The message of the exception, if one was raised.\<close>

fun raised :: "run_result \<Rightarrow> string option" where
  "raised (Spawn_failed ex) = Some ex"
| "raised (Decode_failed ex) = Some ex"
| "raised (Completed proc) = None"

record os_env =
  which :: "string \<Rightarrow> bool"
  sys_executable :: string
  subprocess_run :: "string list \<Rightarrow> string \<Rightarrow> fs \<Rightarrow> run_result"
  child_effect :: "string list \<Rightarrow> string \<Rightarrow> fs \<Rightarrow> fs"
  mkdir_error :: "path \<Rightarrow> fs \<Rightarrow> string option"
  write_error :: "path \<Rightarrow> fs \<Rightarrow> string option"
  relpath :: "path \<Rightarrow> string"

definition path_exists :: "fs \<Rightarrow> path \<Rightarrow> bool" where
  "path_exists f p = (f p \<noteq> None)"

text \<open>The file system once \<open>subprocess.run\<close> has returned or raised.\<close>

definition files_after :: "os_env \<Rightarrow> string list \<Rightarrow> string \<Rightarrow> fs \<Rightarrow> fs" where
  "files_after env cmd cwd f =
     (case subprocess_run env cmd cwd f of
        Spawn_failed ex \<Rightarrow> f
      | Decode_failed ex \<Rightarrow> child_effect env cmd cwd f
      | Completed proc \<Rightarrow> child_effect env cmd cwd f)"

text \<open>A function of the sources returns, or raises an \<open>Exception\<close> with a message.\<close>

datatype outcome = Returned | Raised string

text \<open>
  What the user and the scheduler can observe, in order: modal dialogs, threads started,
  calls of a compile step, and child processes with their argument vector and working
  directory.
\<close>

datatype event =
    Ev_dialog string
  | Ev_thread string
  | Ev_compile
  | Ev_spawn "string list" string

fun spawn_of :: "event \<Rightarrow> (string list \<times> string) list" where
  "spawn_of (Ev_spawn argv cwd) = [(argv, cwd)]"
| "spawn_of e = []"

definition spawns :: "event list \<Rightarrow> (string list \<times> string) list" where
  "spawns es = concat (map spawn_of es)"

text \<open>The threads started among a list of events, by the name of their target.\<close>

fun thread_of :: "event \<Rightarrow> string list" where
  "thread_of (Ev_thread target) = [target]"
| "thread_of e = []"

definition threads :: "event list \<Rightarrow> string list" where
  "threads es = concat (map thread_of es)"

text \<open>The events an operation added to those that were there before it.\<close>

definition new_events :: "event list \<Rightarrow> event list \<Rightarrow> event list" where
  "new_events before after = drop (length before) after"


section \<open>ide_compiler.py: ConsolePane\<close>

text \<open>
  The pane holds the queue of \<open>(text, tag)\<close> pairs put by \<open>write\<close> and the chunks
  inserted into the text widget, each with its tag if it has one. \<open>_flush_queue\<close> runs on
  the thread of the user interface every 60 ms; one run empties the queue in order.
\<close>

record ConsolePane =
  pane_queue :: "(string \<times> string) list"
  pane_text :: "(string \<times> string option) list"

definition pane_write :: "string \<Rightarrow> string \<Rightarrow> ConsolePane \<Rightarrow> ConsolePane" where
  "pane_write txt tag cp = cp\<lparr>pane_queue := pane_queue cp @ [(txt, tag)]\<rparr>"

definition pane_writeline :: "string \<Rightarrow> string \<Rightarrow> ConsolePane \<Rightarrow> ConsolePane" where
  "pane_writeline txt tag cp = pane_write (txt @ newline) tag cp"

definition pane_append :: "string \<Rightarrow> string option \<Rightarrow> bool \<Rightarrow> ConsolePane \<Rightarrow> ConsolePane" where
  "pane_append txt tag clear cp =
     (let shown = (if clear then [] else pane_text cp)
      in cp\<lparr>pane_text :=
            (if txt \<noteq> [] then
               (if tag \<noteq> None \<and> tag \<noteq> Some [] then shown @ [(txt, tag)]
                else shown @ [(txt, None)])
             else shown)\<rparr>)"

definition pane_clear :: "ConsolePane \<Rightarrow> ConsolePane" where
  "pane_clear cp = pane_append [] None True cp"

fun drain :: "(string \<times> string) list \<Rightarrow> ConsolePane \<Rightarrow> ConsolePane" where
  "drain [] cp = cp"
| "drain ((txt, tag) # q) cp = drain q (pane_append txt (Some tag) False cp)"

definition flush_queue :: "ConsolePane \<Rightarrow> ConsolePane" where
  "flush_queue cp = drain (pane_queue cp) (cp\<lparr>pane_queue := []\<rparr>)"


section \<open>ide_compiler.py: CompilerApp\<close>

text \<open>
  The state of the application: its own fields, the fields of its editor that the
  actions read, the four toolbar buttons (always configured together), the callbacks
  handed to \<open>app.after(0, ...)\<close> and not yet run (each is \<open>_set_running\<close> with the
  argument recorded), the file system, and the events so far.
\<close>

record CompilerApp =
  active_path :: "path option"
  running :: bool
  buttons :: string
  status_state :: string
  editor_content :: string
  editor_dirty :: bool
  editor_language :: "string option"
  console :: ConsolePane
  after_calls :: "bool list"
  files :: fs
  events :: "event list"

text \<open>The answers of the user to the dialogs an action may open.\<close>

record user =
  askyesnocancel :: "bool option"
  asksaveasfilename :: "path option"
  askyesno :: bool

definition console_write :: "string \<Rightarrow> string \<Rightarrow> CompilerApp \<Rightarrow> CompilerApp" where
  "console_write txt tag st = st\<lparr>console := pane_write txt tag (console st)\<rparr>"

definition console_writeline :: "string \<Rightarrow> string \<Rightarrow> CompilerApp \<Rightarrow> CompilerApp" where
  "console_writeline txt tag st = st\<lparr>console := pane_writeline txt tag (console st)\<rparr>"

definition record_event :: "event \<Rightarrow> CompilerApp \<Rightarrow> CompilerApp" where
  "record_event e st = st\<lparr>events := events st @ [e]\<rparr>"

definition detect_language :: "path \<Rightarrow> string option" where
  "detect_language p =
     (let ext = lower (path_suffix p)
      in if ext = ''.py'' then Some ''python''
         else if ext \<in> set [''.c'', ''.h''] then Some ''c''
         else if ext \<in> set [''.cpp'', ''.cc'', ''.cxx'', ''.hpp''] then Some ''cpp''
         else if ext = ''.java'' then Some ''java''
         else None)"

definition set_language_from_path :: "path option \<Rightarrow> string option" where
  "set_language_from_path po =
     (case po of
        None \<Rightarrow> None
      | Some p \<Rightarrow>
          (let ext = lower (path_suffix p)
           in if ext = ''.py'' then Some ''python''
              else if ext \<in> set [''.c'', ''.h''] then Some ''c''
              else if ext \<in> set [''.cpp'', ''.cc'', ''.cxx'', ''.hpp''] then Some ''cpp''
              else if ext = ''.java'' then Some ''java''
              else None))"

definition quote_arg :: "string \<Rightarrow> string" where
  "quote_arg a = (if list_ex isspace a then ''\"'' @ a @ ''\"'' else a)"

definition execute_command ::
  "os_env \<Rightarrow> string list \<Rightarrow> string \<Rightarrow> CompilerApp \<Rightarrow> outcome \<times> CompilerApp" where
  "execute_command env cmd cwd st =
     (let st1 = console_writeline (''$ '' @ join '' '' (map quote_arg cmd)) ''system'' st;
          st2 = record_event (Ev_spawn cmd cwd) st1
      in case subprocess_run env cmd cwd (files st2) of
           Spawn_failed ex \<Rightarrow>
             (Returned, console_writeline (''Execution failed: '' @ ex) ''stderr'' st2)
         | Decode_failed ex \<Rightarrow>
             (Returned,
              console_writeline (''Execution failed: '' @ ex) ''stderr''
                (st2\<lparr>files := child_effect env cmd cwd (files st2)\<rparr>))
         | Completed proc \<Rightarrow>
             (let st3 = st2\<lparr>files := child_effect env cmd cwd (files st2)\<rparr>;
                  st4 = (if stdout proc \<noteq> [] then console_write (stdout proc) ''stdout'' st3
                         else st3);
                  st5 = (if stderr proc \<noteq> [] then console_write (stderr proc) ''stderr'' st4
                         else st4)
              in (Returned,
                  console_writeline (''[exit '' @ str_int (returncode proc) @ '']'') ''system''
                    st5)))"

definition fs_mkdir :: "path \<Rightarrow> fs \<Rightarrow> fs" where
  "fs_mkdir d f = (if f d = None then f(d \<mapsto> []) else f)"

definition compile_worker :: "os_env \<Rightarrow> CompilerApp \<Rightarrow> outcome \<times> CompilerApp" where
  "compile_worker env st =
     (case active_path st of
        None \<Rightarrow> (Raised [], st)
      | Some p \<Rightarrow>
          (let lang = detect_language p;
               st0 = record_event Ev_compile st;
               st1 = console_writeline ''========== Compile =========='' ''system'' st0;
               st2 = console_writeline (''File: '' @ path_str p) ''system'' st1
           in if lang = Some ''python'' then
                execute_command env [sys_executable env, ''-m'', ''py_compile'', path_str p]
                  (path_str (parent p)) st2
              else if lang \<in> set [Some ''c'', Some ''cpp''] then
                (let compiler = (if lang = Some ''c'' then ''gcc'' else ''g++'')
                 in if \<not> which env compiler then
                      (Returned, console_writeline (compiler @ '' not found in PATH'') ''stderr'' st2)
                    else
                      (let build_dir = joinpath (parent p) ''build''
                       in case mkdir_error env build_dir (files st2) of
                            Some ex \<Rightarrow> (Raised ex, st2)
                          | None \<Rightarrow>
                              (let st3 = st2\<lparr>files := fs_mkdir build_dir (files st2)\<rparr>;
                                   out = joinpath build_dir (stem p)
                               in execute_command env
                                    [compiler, path_str p, ''-O2'', ''-o'', path_str out]
                                    (path_str (parent p)) st3)))
              else if lang = Some ''java'' then
                (if \<not> which env ''javac'' then
                   (Returned, console_writeline ''javac not found in PATH'' ''stderr'' st2)
                 else execute_command env [''javac'', path_str p] (path_str (parent p)) st2)
              else
                (Returned,
                 console_writeline ''Unsupported file type for compile.'' ''stderr'' st2)))"

definition run_worker :: "os_env \<Rightarrow> CompilerApp \<Rightarrow> outcome \<times> CompilerApp" where
  "run_worker env st =
     (case active_path st of
        None \<Rightarrow> (Raised [], st)
      | Some p \<Rightarrow>
          (let lang = detect_language p;
               st1 = console_writeline ''========== Run =========='' ''system'' st;
               st2 = console_writeline (''File: '' @ path_str p) ''system'' st1
           in if lang = Some ''python'' then
                execute_command env [sys_executable env, path_str p] (path_str (parent p)) st2
              else if lang \<in> set [Some ''c'', Some ''cpp''] then
                (let build_dir = joinpath (parent p) ''build'';
                     out = joinpath build_dir (stem p);
                     r = (if \<not> path_exists (files st2) out then
                            compile_worker env
                              (console_writeline ''Binary not found. Compiling first...''
                                 ''system'' st2)
                          else (Returned, st2))
                 in case r of
                      (Raised ex, st3) \<Rightarrow> (Raised ex, st3)
                    | (Returned, st3) \<Rightarrow>
                        (if path_exists (files st3) out then
                           execute_command env [path_str out] (path_str build_dir) st3
                         else (Returned, st3)))
              else if lang = Some ''java'' then
                (if \<not> which env ''java'' then
                   (Returned,
                    console_writeline ''java runtime not found in PATH'' ''stderr'' st2)
                 else
                   (let class_file = with_suffix p ''.class'';
                        r = (if \<not> path_exists (files st2) class_file then
                               compile_worker env
                                 (console_writeline ''Class not found. Compiling first...''
                                    ''system'' st2)
                             else (Returned, st2))
                    in case r of
                         (Raised ex, st3) \<Rightarrow> (Raised ex, st3)
                       | (Returned, st3) \<Rightarrow>
                           execute_command env [''java'', ''-cp'', path_str (parent p), stem p]
                             (path_str (parent p)) st3))
              else
                (Returned, console_writeline ''Unsupported file type for run.'' ''stderr'' st2)))"


subsection \<open>The background task runner\<close>

definition set_running :: "bool \<Rightarrow> CompilerApp \<Rightarrow> CompilerApp" where
  "set_running r st =
     st\<lparr>running := r,
        buttons := (if r then ''disabled'' else ''normal''),
        status_state := (if r then ''Running...'' else ''Ready'')\<rparr>"

text \<open>
  \<open>_run_background\<close> starts a thread on \<open>_task_wrapper(target)\<close>; the model records the
  start under the name of the target. \<open>task_wrapper\<close> is the body of that thread.
\<close>

definition run_background :: "string \<Rightarrow> CompilerApp \<Rightarrow> CompilerApp" where
  "run_background target st =
     (if running st then st
      else record_event (Ev_thread target) (set_running True st))"

definition task_wrapper ::
  "(CompilerApp \<Rightarrow> outcome \<times> CompilerApp) \<Rightarrow> CompilerApp \<Rightarrow> CompilerApp" where
  "task_wrapper target st =
     (let st2 = (case target st of
                   (Returned, st1) \<Rightarrow> st1
                 | (Raised ex, st1) \<Rightarrow> console_writeline (''Error: '' @ ex) ''stderr'' st1)
      in st2\<lparr>after_calls := after_calls st2 @ [False]\<rparr>)"



text \<open>The main loop runs the callbacks of \<open>after(0, ...)\<close> in the order they were handed in.\<close>

definition mainloop_after :: "CompilerApp \<Rightarrow> CompilerApp" where
  "mainloop_after st = fold set_running (after_calls st) (st\<lparr>after_calls := []\<rparr>)"

subsection \<open>Saving and the actions of the toolbar\<close>

definition save_file :: "os_env \<Rightarrow> path \<Rightarrow> CompilerApp \<Rightarrow> outcome \<times> CompilerApp" where
  "save_file env p st =
     (let content = editor_content st
      in case write_error env p (files st) of
           Some ex \<Rightarrow> (Raised ex, st)
         | None \<Rightarrow> (Returned, st\<lparr>files := (files st)(p \<mapsto> content), editor_dirty := False\<rparr>))"

definition action_save_as :: "os_env \<Rightarrow> user \<Rightarrow> CompilerApp \<Rightarrow> CompilerApp" where
  "action_save_as env u st =
     (let st1 = record_event (Ev_dialog ''asksaveasfilename'') st
      in case asksaveasfilename u of
           None \<Rightarrow> st1
         | Some p \<Rightarrow>
             (case save_file env p st1 of
                (Raised ex, st2) \<Rightarrow> record_event (Ev_dialog ''Save Error'') st2
              | (Returned, st2) \<Rightarrow>
                  console_writeline (''Saved As: '' @ path_str p) ''system''
                    (st2\<lparr>active_path := Some p,
                         editor_language := set_language_from_path (Some p)\<rparr>)))"

definition action_save :: "os_env \<Rightarrow> user \<Rightarrow> CompilerApp \<Rightarrow> CompilerApp" where
  "action_save env u st =
     (case active_path st of
        None \<Rightarrow> action_save_as env u st
      | Some p \<Rightarrow>
          (case save_file env p st of
             (Raised ex, st1) \<Rightarrow> record_event (Ev_dialog ''Save Error'') st1
           | (Returned, st1) \<Rightarrow> console_writeline (''Saved: '' @ path_str p) ''system'' st1))"

definition ensure_save_before_action ::
  "os_env \<Rightarrow> user \<Rightarrow> CompilerApp \<Rightarrow> bool \<times> CompilerApp" where
  "ensure_save_before_action env u st =
     (if editor_dirty st then
        (let st1 = record_event (Ev_dialog ''Unsaved Changes'') st
         in case askyesnocancel u of
              None \<Rightarrow> (False, st1)
            | Some res \<Rightarrow> (True, if res then action_save env u st1 else st1))
      else (True, st))"

definition action_compile :: "os_env \<Rightarrow> user \<Rightarrow> CompilerApp \<Rightarrow> CompilerApp" where
  "action_compile env u st =
     (case ensure_save_before_action env u st of
        (False, st1) \<Rightarrow> st1
      | (True, st1) \<Rightarrow>
          (if active_path st1 = None then record_event (Ev_dialog ''Compile'') st1
           else run_background ''_compile_worker'' st1))"

definition action_run :: "os_env \<Rightarrow> user \<Rightarrow> CompilerApp \<Rightarrow> CompilerApp" where
  "action_run env u st =
     (case ensure_save_before_action env u st of
        (False, st1) \<Rightarrow> st1
      | (True, st1) \<Rightarrow>
          (if active_path st1 = None then record_event (Ev_dialog ''Run'') st1
           else run_background ''_run_worker'' st1))"


section \<open>main.py: CompilerIDEApp\<close>

text \<open>
  The second application has no console pane and no running flag. Its console is a plain
  text widget; a function that changes it goes through \<open>_call_ui\<close>, which runs the change
  at once on the main thread and hands it to \<open>root.after(0, ...)\<close> on any other thread.
  \<open>editor_text\<close> is what the user sees in the editor; Tk's \<open>get("1.0", END)\<close> returns it
  followed by the newline every text widget ends with.
\<close>

datatype thread = Main_thread | Worker_thread

datatype ui_call = Do_clear | Do_append string | Set_status string | Task_done

record CompilerIDEApp =
  current_file :: "path option"
  last_executable :: "path option"
  status_var :: string
  editor_text :: string
  editor_modified :: bool
  console_text :: string
  toolbar :: string
  ui_calls :: "ui_call list"
  ide_files :: fs
  ide_events :: "event list"

definition ide_event :: "event \<Rightarrow> CompilerIDEApp \<Rightarrow> CompilerIDEApp" where
  "ide_event e st = st\<lparr>ide_events := ide_events st @ [e]\<rparr>"

definition set_toolbar_state :: "bool \<Rightarrow> CompilerIDEApp \<Rightarrow> CompilerIDEApp" where
  "set_toolbar_state enabled st = st\<lparr>toolbar := (if enabled then ''normal'' else ''disabled'')\<rparr>"

fun run_ui_call :: "ui_call \<Rightarrow> CompilerIDEApp \<Rightarrow> CompilerIDEApp" where
  "run_ui_call Do_clear st = st\<lparr>console_text := []\<rparr>"
| "run_ui_call (Do_append t) st = st\<lparr>console_text := console_text st @ t\<rparr>"
| "run_ui_call (Set_status s) st = st\<lparr>status_var := s\<rparr>"
| "run_ui_call Task_done st = set_toolbar_state True (st\<lparr>status_var := ''Ready''\<rparr>)"

definition call_ui :: "thread \<Rightarrow> ui_call \<Rightarrow> CompilerIDEApp \<Rightarrow> CompilerIDEApp" where
  "call_ui thr c st =
     (if thr = Main_thread then run_ui_call c st
      else st\<lparr>ui_calls := ui_calls st @ [c]\<rparr>)"

definition clear_console :: "thread \<Rightarrow> CompilerIDEApp \<Rightarrow> CompilerIDEApp" where
  "clear_console thr st = call_ui thr Do_clear st"

definition append_console :: "thread \<Rightarrow> string \<Rightarrow> CompilerIDEApp \<Rightarrow> CompilerIDEApp" where
  "append_console thr t st = call_ui thr (Do_append t) st"

definition set_status :: "thread \<Rightarrow> string \<Rightarrow> CompilerIDEApp \<Rightarrow> CompilerIDEApp" where
  "set_status thr s st = call_ui thr (Set_status s) st"

text \<open>The main loop runs the pending calls in the order they were handed in.\<close>

definition mainloop_ui :: "CompilerIDEApp \<Rightarrow> CompilerIDEApp" where
  "mainloop_ui st = fold run_ui_call (ui_calls st) (st\<lparr>ui_calls := []\<rparr>)"

definition handle_completed_process ::
  "thread \<Rightarrow> completed_process \<Rightarrow> CompilerIDEApp \<Rightarrow> CompilerIDEApp" where
  "handle_completed_process thr completed st =
     (let st1 = (if stdout completed \<noteq> [] then append_console thr (stdout completed) st else st);
          st2 = (if stderr completed \<noteq> [] then append_console thr (stderr completed) st1 else st1)
      in append_console thr
           (newline @ ''[exit code '' @ str_int (returncode completed) @ '']'' @ newline) st2)"


text \<open>
  Every branch of \<open>_compile\<close> and \<open>_run\<close> that starts a child repeats the same three
  statements: echo the command, \<open>subprocess.run\<close> it, hand the completed process to
  \<open>_handle_completed_process\<close>. \<open>run_and_report\<close> is that block; it yields the return
  code, or the message of the exception \<open>subprocess.run\<close> raised.
\<close>

definition run_and_report ::
  "os_env \<Rightarrow> thread \<Rightarrow> string list \<Rightarrow> string \<Rightarrow> CompilerIDEApp
     \<Rightarrow> (string + int) \<times> CompilerIDEApp" where
  "run_and_report env thr cmd cwd st =
     (let st1 = append_console thr (''$ '' @ join '' '' cmd @ newline) st;
          st2 = ide_event (Ev_spawn cmd cwd) st1
      in case subprocess_run env cmd cwd (ide_files st2) of
           Spawn_failed ex \<Rightarrow> (Inl ex, st2)
         | Decode_failed ex \<Rightarrow>
             (Inl ex, st2\<lparr>ide_files := child_effect env cmd cwd (ide_files st2)\<rparr>)
         | Completed proc \<Rightarrow>
             (Inr (returncode proc),
              handle_completed_process thr proc
                (st2\<lparr>ide_files := child_effect env cmd cwd (ide_files st2)\<rparr>)))"

text \<open>
  The body of the \<open>try\<close> of \<open>_compile\<close>, then \<open>_compile\<close> itself with its
  \<open>except Exception\<close>.
\<close>

definition compile_try ::
  "os_env \<Rightarrow> thread \<Rightarrow> path \<Rightarrow> CompilerIDEApp \<Rightarrow> outcome \<times> CompilerIDEApp" where
  "compile_try env thr p st =
     (let ext = lower (path_suffix p); cwd = path_str (parent p)
      in if ext = ''.py'' then
           (case run_and_report env thr
                   [sys_executable env, ''-m'', ''py_compile'', path_name p] cwd st of
              (Inl ex, st1) \<Rightarrow> (Raised ex, st1)
            | (Inr code, st1) \<Rightarrow>
                (Returned,
                 if code = 0 then
                   append_console thr
                     (newline @ ''Python byte-compile successful.'' @ newline) st1
                 else st1))
         else if ext = ''.c'' then
           (if \<not> which env ''gcc'' then
              (Returned, append_console thr (''gcc not found. Please install GCC.'' @ newline) st)
            else
              (let out = with_suffix p []
               in case run_and_report env thr
                         [''gcc'', ''-O2'', ''-Wall'', ''-o'', path_name out, path_name p] cwd st of
                    (Inl ex, st1) \<Rightarrow> (Raised ex, st1)
                  | (Inr code, st1) \<Rightarrow>
                      (Returned, if code = 0 then st1\<lparr>last_executable := Some out\<rparr> else st1)))
         else if ext \<in> set [''.cpp'', ''.cc'', ''.cxx''] then
           (if \<not> which env ''g++'' then
              (Returned, append_console thr (''g++ not found. Please install G++.'' @ newline) st)
            else
              (let out = with_suffix p []
               in case run_and_report env thr
                         [''g++'', ''-std=c++17'', ''-O2'', ''-Wall'', ''-o'', path_name out,
                          path_name p] cwd st of
                    (Inl ex, st1) \<Rightarrow> (Raised ex, st1)
                  | (Inr code, st1) \<Rightarrow>
                      (Returned, if code = 0 then st1\<lparr>last_executable := Some out\<rparr> else st1)))
         else if ext = ''.java'' then
           (if \<not> which env ''javac'' then
              (Returned,
               append_console thr (''javac not found. Please install JDK.'' @ newline) st)
            else
              (case run_and_report env thr [''javac'', path_name p] cwd st of
                 (Inl ex, st1) \<Rightarrow> (Raised ex, st1)
               | (Inr code, st1) \<Rightarrow>
                   (Returned,
                    if code = 0 then st1\<lparr>last_executable := Some (with_suffix p ''.class'')\<rparr>
                    else st1)))
         else
           (Returned, append_console thr (''Unsupported file type: '' @ ext @ newline) st))"

definition compile ::
  "os_env \<Rightarrow> thread \<Rightarrow> path \<Rightarrow> CompilerIDEApp \<Rightarrow> outcome \<times> CompilerIDEApp" where
  "compile env thr p st =
     (let st1 = clear_console thr (ide_event Ev_compile st);
          st2 = append_console thr (''Compiling '' @ relpath env p @ newline @ newline) st1
      in case compile_try env thr p st2 of
           (Raised ex, st3) \<Rightarrow> (Returned, append_console thr (''Error: '' @ ex @ newline) st3)
         | (Returned, st3) \<Rightarrow> (Returned, st3))"

text \<open>
  The C and the C++ branch of \<open>_run\<close> are the same statements; \<open>run_native\<close> is that
  branch.
\<close>

definition run_native ::
  "os_env \<Rightarrow> thread \<Rightarrow> path \<Rightarrow> CompilerIDEApp \<Rightarrow> outcome \<times> CompilerIDEApp" where
  "run_native env thr p st =
     (let exe = with_suffix p [];
          r = (if \<not> path_exists (ide_files st) exe then
                 compile env thr p
                   (append_console thr
                      (''Executable not found. Compiling first...'' @ newline @ newline) st)
               else (Returned, st))
      in case r of
           (Raised ex, st1) \<Rightarrow> (Raised ex, st1)
         | (Returned, st1) \<Rightarrow>
             (if path_exists (ide_files st1) exe then
                (case run_and_report env thr [path_str exe] (path_str (parent p)) st1 of
                   (Inl ex, st2) \<Rightarrow> (Raised ex, st2)
                 | (Inr code, st2) \<Rightarrow> (Returned, st2))
              else (Returned, st1)))"

definition run_try ::
  "os_env \<Rightarrow> thread \<Rightarrow> path \<Rightarrow> CompilerIDEApp \<Rightarrow> outcome \<times> CompilerIDEApp" where
  "run_try env thr p st =
     (let ext = lower (path_suffix p); cwd = path_str (parent p)
      in if ext = ''.py'' then
           (case run_and_report env thr [sys_executable env, path_name p] cwd st of
              (Inl ex, st1) \<Rightarrow> (Raised ex, st1)
            | (Inr code, st1) \<Rightarrow> (Returned, st1))
         else if ext = ''.c'' then run_native env thr p st
         else if ext \<in> set [''.cpp'', ''.cc'', ''.cxx''] then run_native env thr p st
         else if ext = ''.java'' then
           (if \<not> which env ''java'' then
              (Returned,
               append_console thr
                 (''java runtime not found. Please install JDK/JRE.'' @ newline) st)
            else
              (let class_name = stem p;
                   class_file = with_suffix p ''.class'';
                   r = (if \<not> path_exists (ide_files st) class_file then
                          compile env thr p
                            (append_console thr
                               (''Class not found. Compiling first...'' @ newline @ newline) st)
                        else (Returned, st))
               in case r of
                    (Raised ex, st1) \<Rightarrow> (Raised ex, st1)
                  | (Returned, st1) \<Rightarrow>
                      (if path_exists (ide_files st1) class_file then
                         (case run_and_report env thr [''java'', ''-cp'', ''.'', class_name] cwd st1 of
                            (Inl ex, st2) \<Rightarrow> (Raised ex, st2)
                          | (Inr code, st2) \<Rightarrow> (Returned, st2))
                       else (Returned, st1))))
         else
           (Returned, append_console thr (''Unsupported file type: '' @ ext @ newline) st))"

definition run ::
  "os_env \<Rightarrow> thread \<Rightarrow> path \<Rightarrow> CompilerIDEApp \<Rightarrow> outcome \<times> CompilerIDEApp" where
  "run env thr p st =
     (let st1 = clear_console thr st;
          st2 = append_console thr (''Running '' @ relpath env p @ newline @ newline) st1
      in case run_try env thr p st2 of
           (Raised ex, st3) \<Rightarrow> (Returned, append_console thr (''Error: '' @ ex @ newline) st3)
         | (Returned, st3) \<Rightarrow> (Returned, st3))"


subsection \<open>Dispatch\<close>

text \<open>
  The status text of \<open>_run_async\<close> ends with U+2026, the one character of the sources
  above 255; it is kept as its three UTF-8 bytes. \<open>_run_async\<close> is called by the
  commands of the buttons, on the main thread. \<open>run_async_task_wrapper\<close> is the body of
  the thread it starts: \<open>try: func() finally: root.after(0, ...)\<close>.
\<close>

definition ellipsis :: string where
  "ellipsis = [CHR 0xE2, CHR 0x80, CHR 0xA6]"

definition run_async :: "string \<Rightarrow> CompilerIDEApp \<Rightarrow> CompilerIDEApp" where
  "run_async task_name st =
     ide_event (Ev_thread task_name)
       (set_toolbar_state False (set_status Main_thread (task_name @ ellipsis) st))"

definition run_async_task_wrapper ::
  "(CompilerIDEApp \<Rightarrow> outcome \<times> CompilerIDEApp) \<Rightarrow> CompilerIDEApp
     \<Rightarrow> outcome \<times> CompilerIDEApp" where
  "run_async_task_wrapper func st =
     (case func st of (r, st1) \<Rightarrow> (r, st1\<lparr>ui_calls := ui_calls st1 @ [Task_done]\<rparr>))"

subsection \<open>Saving\<close>

definition editor_get_end :: "CompilerIDEApp \<Rightarrow> string" where
  "editor_get_end st = editor_text st @ newline"

text \<open>
  The statements of \<open>save_current_file\<close> from its \<open>try\<close> on, for the file \<open>p\<close> that
  \<open>current_file\<close> holds by then.
\<close>

definition save_to :: "os_env \<Rightarrow> path \<Rightarrow> CompilerIDEApp \<Rightarrow> CompilerIDEApp" where
  "save_to env p st =
     (let content = editor_get_end st;
          content = (if endswith content newline \<and> strip content = [] then [] else content)
      in case write_error env p (ide_files st) of
           Some ex \<Rightarrow> ide_event (Ev_dialog ''Save Error'') st
         | None \<Rightarrow>
             set_status Main_thread (''Saved '' @ relpath env p)
               (st\<lparr>ide_files := (ide_files st)(p \<mapsto> content), editor_modified := False\<rparr>))"

definition save_current_file :: "os_env \<Rightarrow> user \<Rightarrow> CompilerIDEApp \<Rightarrow> CompilerIDEApp" where
  "save_current_file env u st =
     (case current_file st of
        None \<Rightarrow>
          (let st1 = ide_event (Ev_dialog ''asksaveasfilename'') st
           in case asksaveasfilename u of
                None \<Rightarrow> st1
              | Some p \<Rightarrow> save_to env p (st1\<lparr>current_file := Some p\<rparr>))
      | Some p \<Rightarrow> save_to env p st)"

definition ensure_current_file_saved ::
  "os_env \<Rightarrow> user \<Rightarrow> CompilerIDEApp \<Rightarrow> bool \<times> CompilerIDEApp" where
  "ensure_current_file_saved env u st =
     (if current_file st = None then (False, ide_event (Ev_dialog ''No file'') st)
      else if editor_modified st then
        (let st1 = ide_event (Ev_dialog ''Unsaved changes'') st
         in if askyesno u then (True, save_current_file env u st1) else (False, st1))
      else (True, st))"

definition compile_current_file ::
  "os_env \<Rightarrow> user \<Rightarrow> CompilerIDEApp \<Rightarrow> outcome \<times> CompilerIDEApp" where
  "compile_current_file env u st =
     (case ensure_current_file_saved env u st of
        (False, st1) \<Rightarrow> (Returned, st1)
      | (True, st1) \<Rightarrow>
          (case current_file st1 of
             None \<Rightarrow> (Raised [], st1)
           | Some p \<Rightarrow> (Returned, run_async ''Compiling'' st1)))"

definition run_current_file ::
  "os_env \<Rightarrow> user \<Rightarrow> CompilerIDEApp \<Rightarrow> outcome \<times> CompilerIDEApp" where
  "run_current_file env u st =
     (case ensure_current_file_saved env u st of
        (False, st1) \<Rightarrow> (Returned, st1)
      | (True, st1) \<Rightarrow>
          (case current_file st1 of
             None \<Rightarrow> (Raised [], st1)
           | Some p \<Rightarrow> (Returned, run_async ''Running'' st1)))"

subsection \<open>The toolbar buttons\<close>

text \<open>
  \<open>compile_current_file\<close> and \<open>run_current_file\<close> are the commands of the Compile and
  the Run button and nothing else calls them: \<open>main.py\<close> binds no key to them. A button
  that has been configured with the state \<open>disabled\<close> ignores the click, so \<open>press\<close> is
  how a request reaches the application.
\<close>

definition press ::
  "(CompilerIDEApp \<Rightarrow> outcome \<times> CompilerIDEApp) \<Rightarrow> CompilerIDEApp
     \<Rightarrow> outcome \<times> CompilerIDEApp" where
  "press command st = (if toolbar st = ''disabled'' then (Returned, st) else command st)"

text \<open>
  \<open>main.py\<close> keeps no flag: what it knows of a task in flight is the state of the
  buttons and the completion callbacks (the \<open>after\<close> of the \<open>finally\<close> in \<open>_run_async\<close>)
  handed to the main loop and not yet run.
\<close>

definition pending_done :: "CompilerIDEApp \<Rightarrow> nat" where
  "pending_done st = length (filter (\<lambda>c. c = Task_done) (ui_calls st))"

definition dispatch_state :: "CompilerIDEApp \<Rightarrow> string \<times> nat" where
  "dispatch_state st = (toolbar st, pending_done st)"

text \<open>
  The states \<open>CompilerIDEApp\<close> goes through, each with the number of worker threads that
  have been started and have not yet reached the \<open>finally\<close> of their wrapper. The
  application starts with the buttons enabled and no completion callback pending. The user
  presses Compile or Run; the \<open>finally\<close> of a worker hands its completion callback to the
  main loop; the main loop runs the call at the head of its queue; and everything else
  (the user editing, opening or saving a file, a worker writing files or handing console
  text to the main loop) leaves the buttons and the pending completion callbacks as they
  are.
\<close>

inductive ide_reach :: "os_env \<Rightarrow> CompilerIDEApp \<Rightarrow> nat \<Rightarrow> bool" for env :: os_env where
  started: "toolbar st = ''normal'' \<Longrightarrow> pending_done st = 0 \<Longrightarrow> ide_reach env st 0"
| pressed_compile:
    "ide_reach env st n \<Longrightarrow> st' = snd (press (compile_current_file env u) st) \<Longrightarrow>
     ide_reach env st' (n + length (threads (new_events (ide_events st) (ide_events st'))))"
| pressed_run:
    "ide_reach env st n \<Longrightarrow> st' = snd (press (run_current_file env u) st) \<Longrightarrow>
     ide_reach env st' (n + length (threads (new_events (ide_events st) (ide_events st'))))"
| worker_done:
    "ide_reach env st (Suc n) \<Longrightarrow>
     ide_reach env (st\<lparr>ui_calls := ui_calls st @ [Task_done]\<rparr>) n"
| callback:
    "ide_reach env st n \<Longrightarrow> ui_calls st = c # cs \<Longrightarrow>
     ide_reach env (run_ui_call c (st\<lparr>ui_calls := cs\<rparr>)) n"
| other:
    "ide_reach env st n \<Longrightarrow> dispatch_state st' = dispatch_state st \<Longrightarrow> ide_reach env st' n"

section \<open>Example values\<close>

text \<open>
  A machine with every tool installed, where each child succeeds silently and writes
  nothing; the two applications as their constructors leave them; a user who cancels.
\<close>

definition example_env :: os_env where
  "example_env =
     \<lparr>which = (\<lambda>tool. True),
      sys_executable = ''/usr/bin/python3'',
      subprocess_run = (\<lambda>cmd cwd f. Completed (CompletedProcess [] [] 0)),
      child_effect = (\<lambda>cmd cwd f. f),
      mkdir_error = (\<lambda>d f. None),
      write_error = (\<lambda>p f. None),
      relpath = path_name\<rparr>"

definition initial_app :: CompilerApp where
  "initial_app =
     \<lparr>active_path = None, running = False, buttons = ''normal'', status_state = ''Ready'',
      editor_content = [], editor_dirty = False, editor_language = None,
      console = \<lparr>pane_queue = [], pane_text = []\<rparr>,
      after_calls = [], files = Map.empty, events = []\<rparr>"

definition initial_ide :: CompilerIDEApp where
  "initial_ide =
     \<lparr>current_file = None, last_executable = None, status_var = ''Ready'',
      editor_text = [], editor_modified = False, console_text = [], toolbar = ''normal'',
      ui_calls = [], ide_files = Map.empty, ide_events = []\<rparr>"

definition cancelling_user :: user where
  "cancelling_user = \<lparr>askyesnocancel = None, asksaveasfilename = None, askyesno = False\<rparr>"


text \<open>
  A Java project that has not been compiled, in either application; a machine whose
  children all fail with return code 1 and write no file; a machine without \<open>javac\<close>.
\<close>

definition java_project :: CompilerApp where
  "java_project =
     initial_app
       \<lparr>active_path := Some (Path [''proj'', ''Main.java'']),
        files := [Path [''proj'', ''Main.java''] \<mapsto> ''class Main {'']\<rparr>"

definition java_project_ide :: CompilerIDEApp where
  "java_project_ide =
     initial_ide
       \<lparr>current_file := Some (Path [''proj'', ''Main.java'']),
        ide_files := [Path [''proj'', ''Main.java''] \<mapsto> ''class Main {'']\<rparr>"

definition failing_children_env :: os_env where
  "failing_children_env =
     example_env
       \<lparr>subprocess_run := (\<lambda>cmd cwd f. Completed (CompletedProcess [] ''error'' 1))\<rparr>"

definition no_javac_env :: os_env where
  "no_javac_env = example_env\<lparr>which := (\<lambda>tool. tool \<noteq> ''javac'')\<rparr>"

text \<open>
  A machine whose children print on both streams and return 3; a machine on which no
  child can be started; a machine whose children write bytes that do not decode. A
  Python script open in either application.
\<close>

definition noisy_env :: os_env where
  "noisy_env =
     example_env
       \<lparr>subprocess_run := (\<lambda>cmd cwd f. Completed (CompletedProcess ''out'' ''warn'' 3))\<rparr>"

definition unspawnable_env :: os_env where
  "unspawnable_env =
     example_env\<lparr>subprocess_run := (\<lambda>cmd cwd f. Spawn_failed ''Permission denied'')\<rparr>"

definition undecodable_env :: os_env where
  "undecodable_env =
     example_env\<lparr>subprocess_run := (\<lambda>cmd cwd f. Decode_failed ''invalid start byte'')\<rparr>"

definition python_project :: CompilerApp where
  "python_project =
     initial_app
       \<lparr>active_path := Some (Path [''proj'', ''a.py'']),
        files := [Path [''proj'', ''a.py''] \<mapsto> ''import sys; sys.exit(3)'']\<rparr>"

definition python_project_ide :: CompilerIDEApp where
  "python_project_ide =
     initial_ide
       \<lparr>current_file := Some (Path [''proj'', ''a.py'']),
        ide_files := [Path [''proj'', ''a.py''] \<mapsto> ''import sys; sys.exit(3)'']\<rparr>"

text \<open>
  Either application with the Python script open and a task in flight: \<open>CompilerApp\<close>
  with its flag set, \<open>CompilerIDEApp\<close> after the user has pressed Run.
\<close>

definition busy_app :: CompilerApp where
  "busy_app = set_running True python_project"

definition busy_ide :: CompilerIDEApp where
  "busy_ide = snd (press (run_current_file example_env cancelling_user) python_project_ide)"

section \<open>Frame lemmas\<close>

lemma console_writeline_fields [simp]:
  "events (console_writeline t g st) = events st"
  "files (console_writeline t g st) = files st"
  "active_path (console_writeline t g st) = active_path st"
  "running (console_writeline t g st) = running st"
  "buttons (console_writeline t g st) = buttons st"
  "status_state (console_writeline t g st) = status_state st"
  "after_calls (console_writeline t g st) = after_calls st"
  "editor_dirty (console_writeline t g st) = editor_dirty st"
  "editor_content (console_writeline t g st) = editor_content st"
  "console (console_writeline t g st) = pane_writeline t g (console st)"
  by (simp_all add: console_writeline_def)

lemma console_write_fields [simp]:
  "events (console_write t g st) = events st"
  "files (console_write t g st) = files st"
  "active_path (console_write t g st) = active_path st"
  "running (console_write t g st) = running st"
  "buttons (console_write t g st) = buttons st"
  "status_state (console_write t g st) = status_state st"
  "after_calls (console_write t g st) = after_calls st"
  "editor_dirty (console_write t g st) = editor_dirty st"
  "editor_content (console_write t g st) = editor_content st"
  "console (console_write t g st) = pane_write t g (console st)"
  by (simp_all add: console_write_def)

lemma record_event_fields [simp]:
  "events (record_event e st) = events st @ [e]"
  "files (record_event e st) = files st"
  "active_path (record_event e st) = active_path st"
  "running (record_event e st) = running st"
  "buttons (record_event e st) = buttons st"
  "status_state (record_event e st) = status_state st"
  "after_calls (record_event e st) = after_calls st"
  "editor_dirty (record_event e st) = editor_dirty st"
  "editor_content (record_event e st) = editor_content st"
  "console (record_event e st) = console st"
  by (simp_all add: record_event_def)

lemma pane_queue_write [simp]:
  "pane_queue (pane_write t g cp) = pane_queue cp @ [(t, g)]"
  "pane_queue (pane_writeline t g cp) = pane_queue cp @ [(t @ newline, g)]"
  "pane_text (pane_write t g cp) = pane_text cp"
  "pane_text (pane_writeline t g cp) = pane_text cp"
  by (simp_all add: pane_write_def pane_writeline_def)

lemma spawns_simps [simp]:
  "spawns [] = []"
  "spawns (Ev_spawn argv cwd # es) = (argv, cwd) # spawns es"
  "spawns (Ev_compile # es) = spawns es"
  "spawns (Ev_dialog d # es) = spawns es"
  "spawns (Ev_thread t # es) = spawns es"
  "spawns (es @ es') = spawns es @ spawns es'"
  by (simp_all add: spawns_def)

lemma threads_simps [simp]:
  "threads [] = []"
  "threads (Ev_thread t # es) = t # threads es"
  "threads (Ev_compile # es) = threads es"
  "threads (Ev_dialog d # es) = threads es"
  "threads (Ev_spawn argv cwd # es) = threads es"
  "threads (es @ es') = threads es @ threads es'"
  by (simp_all add: threads_def)

lemma new_events_append [simp]: "new_events es (es @ new) = new"
  by (simp add: new_events_def)

lemma new_events_same [simp]: "new_events es es = []"
  by (simp add: new_events_def)

subsection \<open>The executor of CompilerApp\<close>

lemma execute_command_returns [simp]: "fst (execute_command env cmd cwd st) = Returned"
  by (simp add: execute_command_def Let_def split: run_result.splits)

lemma execute_command_events [simp]:
  "events (snd (execute_command env cmd cwd st)) = events st @ [Ev_spawn cmd cwd]"
  by (simp add: execute_command_def Let_def split: run_result.splits)

lemma execute_command_active_path [simp]:
  "active_path (snd (execute_command env cmd cwd st)) = active_path st"
  by (simp add: execute_command_def Let_def split: run_result.splits)

lemma execute_command_files:
  "files (snd (execute_command env cmd cwd st)) = files_after env cmd cwd (files st)"
  by (simp add: execute_command_def files_after_def Let_def split: run_result.splits)

lemma execute_command_queue_completed:
  assumes "subprocess_run env cmd cwd (files st) = Completed proc"
  shows "pane_queue (console (snd (execute_command env cmd cwd st))) =
           pane_queue (console st) @
           [(''$ '' @ join '' '' (map quote_arg cmd) @ newline, ''system'')] @
           (if stdout proc \<noteq> [] then [(stdout proc, ''stdout'')] else []) @
           (if stderr proc \<noteq> [] then [(stderr proc, ''stderr'')] else []) @
           [(''[exit '' @ str_int (returncode proc) @ '']'' @ newline, ''system'')]"
  using assms by (simp add: execute_command_def Let_def)

lemma execute_command_queue_failed:
  assumes "raised (subprocess_run env cmd cwd (files st)) = Some ex"
  shows "pane_queue (console (snd (execute_command env cmd cwd st))) =
           pane_queue (console st) @
           [(''$ '' @ join '' '' (map quote_arg cmd) @ newline, ''system''),
            (''Execution failed: '' @ ex @ newline, ''stderr'')]"
  using assms
  by (cases "subprocess_run env cmd cwd (files st)")
    (simp_all add: execute_command_def Let_def)

subsection \<open>The resolver and the unsupported extensions\<close>

lemma detect_language_cases:
  "detect_language p =
     (if lower (path_suffix p) = ''.py'' then Some ''python''
      else if lower (path_suffix p) \<in> set [''.c'', ''.h''] then Some ''c''
      else if lower (path_suffix p) \<in> set [''.cpp'', ''.cc'', ''.cxx'', ''.hpp'']
        then Some ''cpp''
      else if lower (path_suffix p) = ''.java'' then Some ''java''
      else None)"
  by (simp add: detect_language_def Let_def)

lemma compile_worker_unsupported:
  assumes "active_path st = Some p" and "detect_language p = None"
  shows "compile_worker env st =
           (Returned,
            console_writeline ''Unsupported file type for compile.'' ''stderr''
              (console_writeline (''File: '' @ path_str p) ''system''
                 (console_writeline ''========== Compile =========='' ''system''
                    (record_event Ev_compile st))))"
  using assms by (simp add: compile_worker_def Let_def)

lemma run_worker_unsupported:
  assumes "active_path st = Some p" and "detect_language p = None"
  shows "run_worker env st =
           (Returned,
            console_writeline ''Unsupported file type for run.'' ''stderr''
              (console_writeline (''File: '' @ path_str p) ''system''
                 (console_writeline ''========== Run =========='' ''system'' st)))"
  using assms by (simp add: run_worker_def Let_def)

lemma compile_unsupported:
  assumes "lower (path_suffix p) \<notin> set [''.py'', ''.c'', ''.cpp'', ''.cc'', ''.cxx'', ''.java'']"
  shows "compile env thr p st =
           (Returned,
            append_console thr (''Unsupported file type: '' @ lower (path_suffix p) @ newline)
              (append_console thr (''Compiling '' @ relpath env p @ newline @ newline)
                 (clear_console thr (ide_event Ev_compile st))))"
  using assms by (simp add: compile_def compile_try_def Let_def)

lemma run_unsupported:
  assumes "lower (path_suffix p) \<notin> set [''.py'', ''.c'', ''.cpp'', ''.cc'', ''.cxx'', ''.java'']"
  shows "run env thr p st =
           (Returned,
            append_console thr (''Unsupported file type: '' @ lower (path_suffix p) @ newline)
              (append_console thr (''Running '' @ relpath env p @ newline @ newline)
                 (clear_console thr st)))"
  using assms by (simp add: run_def run_try_def Let_def)

lemma ide_console_fields [simp]:
  "ide_events (append_console thr t st) = ide_events st"
  "ide_events (clear_console thr st) = ide_events st"
  "ide_events (set_status thr s st) = ide_events st"
  "ide_events (ide_event e st) = ide_events st @ [e]"
  "ide_files (append_console thr t st) = ide_files st"
  "ide_files (clear_console thr st) = ide_files st"
  "ide_files (set_status thr s st) = ide_files st"
  "ide_files (ide_event e st) = ide_files st"
  by (simp_all add: append_console_def clear_console_def set_status_def call_ui_def
      ide_event_def run_ui_call.simps)

subsection \<open>The C and C++ branches of the workers\<close>




subsection \<open>The console pane and the calls handed to the main loop\<close>

lemma pane_append_texts:
  "map fst (pane_text (pane_append t tag False cp)) =
     map fst (pane_text cp) @ (if t = [] then [] else [t])"
  by (simp add: pane_append_def Let_def)

lemma pane_append_queue [simp]: "pane_queue (pane_append t tag c cp) = pane_queue cp"
  by (simp add: pane_append_def Let_def)

lemma drain_texts:
  "map fst (pane_text (drain q cp)) =
     map fst (pane_text cp) @ filter (\<lambda>t. t \<noteq> []) (map fst q)"
proof (induction q arbitrary: cp)
  case Nil
  show ?case by simp
next
  case (Cons x q)
  obtain t g where x: "x = (t, g)" by (cases x)
  show ?case by (simp add: x Cons.IH pane_append_texts)
qed

lemma drain_queue [simp]: "pane_queue (drain q cp) = pane_queue cp"
proof (induction q arbitrary: cp)
  case Nil
  show ?case by simp
next
  case (Cons x q)
  obtain t g where x: "x = (t, g)" by (cases x)
  show ?case by (simp add: x Cons.IH)
qed

lemma flush_queue_texts:
  "map fst (pane_text (flush_queue cp)) =
     map fst (pane_text cp) @ filter (\<lambda>t. t \<noteq> []) (map fst (pane_queue cp))"
  by (simp add: flush_queue_def drain_texts)

lemma flush_queue_empties [simp]: "pane_queue (flush_queue cp) = []"
  by (simp add: flush_queue_def)

lemma pane_writes_queue:
  "pane_queue (fold (\<lambda>(t, g). pane_write t g) ws cp) = pane_queue cp @ ws"
proof (induction ws arbitrary: cp)
  case Nil
  show ?case by simp
next
  case (Cons w ws)
  obtain t g where w: "w = (t, g)" by (cases w)
  show ?case by (simp add: w Cons.IH)
qed

lemma pane_writes_text:
  "pane_text (fold (\<lambda>(t, g). pane_write t g) ws cp) = pane_text cp"
proof (induction ws arbitrary: cp)
  case Nil
  show ?case by simp
next
  case (Cons w ws)
  obtain t g where w: "w = (t, g)" by (cases w)
  show ?case by (simp add: w Cons.IH)
qed

lemma mainloop_ui_append:
  "mainloop_ui (st\<lparr>ui_calls := ui_calls st @ cs\<rparr>) = fold run_ui_call cs (mainloop_ui st)"
  by (simp add: mainloop_ui_def)

lemma append_console_worker:
  "append_console Worker_thread t st = st\<lparr>ui_calls := ui_calls st @ [Do_append t]\<rparr>"
  by (simp add: append_console_def call_ui_def)

lemma append_console_main:
  "append_console Main_thread t st = st\<lparr>console_text := console_text st @ t\<rparr>"
  by (simp add: append_console_def call_ui_def)

subsection \<open>Saving\<close>

lemma strip_empty_iff: "strip s = [] \<longleftrightarrow> list_all isspace s"
proof
  assume "strip s = []"
  then have e: "dropWhile isspace (rev (dropWhile isspace s)) = []"
    by (simp add: strip_def)
  have "dropWhile isspace s = []"
  proof (rule ccontr)
    assume n: "dropWhile isspace s \<noteq> []"
    then have "\<not> isspace (hd (dropWhile isspace s))" by (rule hd_dropWhile)
    moreover have "hd (dropWhile isspace s) \<in> set (rev (dropWhile isspace s))"
      using n by simp
    ultimately show False using e by (auto simp add: dropWhile_eq_Nil_conv)
  qed
  then show "list_all isspace s" by (simp add: dropWhile_eq_Nil_conv list_all_iff)
next
  assume "list_all isspace s"
  then have "dropWhile isspace s = []" by (simp add: dropWhile_eq_Nil_conv list_all_iff)
  then have "strip s = rev (dropWhile isspace (rev []))" by (simp only: strip_def)
  then show "strip s = []" by simp
qed

lemma endswith_newline: "endswith (t @ newline) newline"
  by (simp add: endswith_def)

lemma isspace_newline: "list_all isspace newline"
  by (simp add: newline_def isspace_def)

lemma save_to_written:
  assumes "write_error env p (ide_files st) = None"
  shows "ide_files (save_to env p st) p =
           Some (if list_all isspace (editor_text st) then [] else editor_text st @ newline)"
  using assms
  by (simp add: save_to_def Let_def editor_get_end_def endswith_newline strip_empty_iff
      isspace_newline)

subsection \<open>The children of CompilerIDEApp\<close>

lemma handle_completed_process_main:
  "console_text (handle_completed_process Main_thread proc st) =
     console_text st @ stdout proc @ stderr proc @
     newline @ ''[exit code '' @ str_int (returncode proc) @ '']'' @ newline"
  by (simp add: handle_completed_process_def Let_def append_console_main)

lemma handle_completed_process_worker:
  "console_text (mainloop_ui (handle_completed_process Worker_thread proc st)) =
     console_text (mainloop_ui st) @ stdout proc @ stderr proc @
     newline @ ''[exit code '' @ str_int (returncode proc) @ '']'' @ newline"
  by (simp add: handle_completed_process_def Let_def append_console_worker mainloop_ui_def)

lemma handle_completed_process_fields [simp]:
  "ide_events (handle_completed_process thr proc st) = ide_events st"
  "ide_files (handle_completed_process thr proc st) = ide_files st"
  by (simp_all add: handle_completed_process_def Let_def)

lemma compile_returns: "fst (compile env thr p st) = Returned"
  by (simp add: compile_def Let_def split: prod.splits outcome.splits)

lemma run_returns: "fst (run env thr p st) = Returned"
  by (simp add: run_def Let_def split: prod.splits outcome.splits)

lemma run_and_report_raised:
  assumes "raised (subprocess_run env cmd cwd (ide_files st)) = Some ex"
  shows "run_and_report env thr cmd cwd st =
           (Inl ex,
            (ide_event (Ev_spawn cmd cwd)
               (append_console thr (''$ '' @ join '' '' cmd @ newline) st))
             \<lparr>ide_files := files_after env cmd cwd (ide_files st)\<rparr>)"
  using assms
  by (cases "subprocess_run env cmd cwd (ide_files st)")
    (simp_all add: run_and_report_def files_after_def Let_def ide_event_def
      append_console_def call_ui_def)

subsection \<open>The running flag\<close>

lemma set_running_fields [simp]:
  "running (set_running r st) = r"
  "buttons (set_running r st) = (if r then ''disabled'' else ''normal'')"
  "status_state (set_running r st) = (if r then ''Running...'' else ''Ready'')"
  "after_calls (set_running r st) = after_calls st"
  "events (set_running r st) = events st"
  "files (set_running r st) = files st"
  by (simp_all add: set_running_def)

lemma fold_set_running_after_calls:
  "after_calls (fold set_running rs st) = after_calls st"
  by (induction rs arbitrary: st) simp_all

lemma mainloop_after_task_wrapper:
  "mainloop_after (task_wrapper body st) =
     set_running False
       (fold set_running
          (after_calls (task_wrapper body st\<lparr>after_calls := []\<rparr>) @
           butlast (after_calls (task_wrapper body st)))
          (task_wrapper body st\<lparr>after_calls := []\<rparr>))"
  by (simp add: mainloop_after_def task_wrapper_def Let_def split: prod.splits outcome.splits)

lemma task_wrapper_resets:
  "\<not> running (mainloop_after (task_wrapper body st))"
  "buttons (mainloop_after (task_wrapper body st)) = ''normal''"
  "status_state (mainloop_after (task_wrapper body st)) = ''Ready''"
  "after_calls (mainloop_after (task_wrapper body st)) = []"
  by (simp_all add: mainloop_after_task_wrapper fold_set_running_after_calls)

lemma run_background_busy: "running st \<Longrightarrow> run_background target st = st"
  by (simp add: run_background_def)

lemma run_background_idle:
  assumes "\<not> running st"
  shows "running (run_background target st)"
    and "buttons (run_background target st) = ''disabled''"
    and "events (run_background target st) = events st @ [Ev_thread target]"
  using assms by (simp_all add: run_background_def)

lemma save_file_fields [simp]:
  "events (snd (save_file env p st)) = events st"
  "running (snd (save_file env p st)) = running st"
  "active_path (snd (save_file env p st)) = active_path st"
  by (simp_all add: save_file_def Let_def split: option.splits)

lemma action_save_as_running [simp]: "running (action_save_as env u st) = running st"
proof (cases "asksaveasfilename u")
  case None
  then show ?thesis by (simp add: action_save_as_def Let_def)
next
  case (Some p)
  obtain r st2 where s: "save_file env p (record_event (Ev_dialog ''asksaveasfilename'') st) = (r, st2)"
    by (cases "save_file env p (record_event (Ev_dialog ''asksaveasfilename'') st)")
  have "running st2 = running st"
    using save_file_fields(2) [of env p "record_event (Ev_dialog ''asksaveasfilename'') st"] s
    by simp
  then show ?thesis using Some s by (cases r) (simp_all add: action_save_as_def Let_def)
qed

lemma action_save_as_events:
  "\<exists>new. events (action_save_as env u st) = events st @ new \<and> threads new = [] \<and> spawns new = []"
proof (cases "asksaveasfilename u")
  case None
  then show ?thesis by (simp add: action_save_as_def Let_def)
next
  case (Some p)
  obtain r st2 where s: "save_file env p (record_event (Ev_dialog ''asksaveasfilename'') st) = (r, st2)"
    by (cases "save_file env p (record_event (Ev_dialog ''asksaveasfilename'') st)")
  have "events st2 = events st @ [Ev_dialog ''asksaveasfilename'']"
    using save_file_fields(1) [of env p "record_event (Ev_dialog ''asksaveasfilename'') st"] s
    by simp
  then show ?thesis using Some s by (cases r) (simp_all add: action_save_as_def Let_def)
qed

lemma action_save_running [simp]: "running (action_save env u st) = running st"
proof (cases "active_path st")
  case None
  then show ?thesis by (simp add: action_save_def)
next
  case (Some p)
  obtain r st1 where s: "save_file env p st = (r, st1)" by (cases "save_file env p st")
  have "running st1 = running st" using save_file_fields(2) [of env p st] s by simp
  then show ?thesis using Some s by (cases r) (simp_all add: action_save_def)
qed

lemma action_save_events:
  "\<exists>new. events (action_save env u st) = events st @ new \<and> threads new = [] \<and> spawns new = []"
proof (cases "active_path st")
  case None
  then show ?thesis using action_save_as_events [of env u st] by (simp add: action_save_def)
next
  case (Some p)
  obtain r st1 where s: "save_file env p st = (r, st1)" by (cases "save_file env p st")
  have "events st1 = events st" using save_file_fields(1) [of env p st] s by simp
  then show ?thesis using Some s by (cases r) (simp_all add: action_save_def)
qed

lemma ensure_save_running [simp]:
  "running (snd (ensure_save_before_action env u st)) = running st"
  by (simp add: ensure_save_before_action_def Let_def split: option.splits)

lemma ensure_save_events:
  "\<exists>new. events (snd (ensure_save_before_action env u st)) = events st @ new
     \<and> threads new = [] \<and> spawns new = []
     \<and> (editor_dirty st \<longrightarrow> (\<exists>rest. new = Ev_dialog ''Unsaved Changes'' # rest))"
proof (cases "editor_dirty st")
  case False
  then show ?thesis by (simp add: ensure_save_before_action_def)
next
  case True
  let ?st1 = "record_event (Ev_dialog ''Unsaved Changes'') st"
  obtain new where n: "events (action_save env u ?st1) = events ?st1 @ new"
    "threads new = []" "spawns new = []"
    using action_save_events [of env u ?st1] by blast
  show ?thesis
    using True n
    by (cases "askyesnocancel u") (simp_all add: ensure_save_before_action_def Let_def)
qed

lemma ensure_save_cancel:
  assumes "editor_dirty st" and "askyesnocancel u = None"
  shows "ensure_save_before_action env u st =
           (False, record_event (Ev_dialog ''Unsaved Changes'') st)"
  using assms by (simp add: ensure_save_before_action_def Let_def)

lemma action_dispatch_events:
  assumes "act = action_compile \<or> act = action_run"
  shows "\<exists>new. events (act env u st) = events st @ new \<and> spawns new = []
           \<and> (running st \<longrightarrow> threads new = [])
           \<and> (editor_dirty st \<longrightarrow> (\<exists>rest. new = Ev_dialog ''Unsaved Changes'' # rest))"
proof -
  obtain ok st1 where e: "ensure_save_before_action env u st = (ok, st1)"
    by (cases "ensure_save_before_action env u st")
  obtain new where n: "events st1 = events st @ new" "threads new = []" "spawns new = []"
    "editor_dirty st \<longrightarrow> (\<exists>rest. new = Ev_dialog ''Unsaved Changes'' # rest)"
    using ensure_save_events [of env u st] e by auto
  have r: "running st1 = running st" using ensure_save_running [of env u st] e by simp
  show ?thesis
    using assms e n r
    by (cases ok) (auto simp add: action_compile_def action_run_def run_background_def)
qed

lemma action_dispatch_running:
  assumes "act = action_compile \<or> act = action_run" and "running st"
  shows "running (act env u st)"
proof -
  obtain ok st1 where e: "ensure_save_before_action env u st = (ok, st1)"
    by (cases "ensure_save_before_action env u st")
  have r: "running st1" using ensure_save_running [of env u st] e assms(2) by simp
  show ?thesis
    using assms(1) e r
    by (cases ok) (auto simp add: action_compile_def action_run_def run_background_def)
qed

subsection \<open>Dispatch in CompilerIDEApp\<close>

lemma run_async_fields:
  "toolbar (run_async name st) = ''disabled''"
  "ide_events (run_async name st) = ide_events st @ [Ev_thread name]"
  "status_var (run_async name st) = name @ ellipsis"
  by (simp_all add: run_async_def set_toolbar_state_def set_status_def call_ui_def
      ide_event_def)

lemma run_async_task_wrapper_done:
  "toolbar (mainloop_ui (snd (run_async_task_wrapper func st))) = ''normal''"
  "status_var (mainloop_ui (snd (run_async_task_wrapper func st))) = ''Ready''"
  "fst (run_async_task_wrapper func st) = fst (func st)"
  by (simp_all add: run_async_task_wrapper_def mainloop_ui_def set_toolbar_state_def
      split: prod.splits)

lemma save_to_events: "\<exists>new. ide_events (save_to env p st) = ide_events st @ new"
  by (simp add: save_to_def Let_def set_status_def call_ui_def ide_event_def
      split: option.splits)

lemma save_current_file_events:
  "\<exists>new. ide_events (save_current_file env u st) = ide_events st @ new"
proof (cases "current_file st")
  case (Some p)
  then show ?thesis using save_to_events [of env p st] by (simp add: save_current_file_def)
next
  case None
  show ?thesis
  proof (cases "asksaveasfilename u")
    case n: None
    then show ?thesis using None by (simp add: save_current_file_def Let_def)
  next
    case (Some p)
    let ?st = "(ide_event (Ev_dialog ''asksaveasfilename'') st)\<lparr>current_file := Some p\<rparr>"
    obtain new where "ide_events (save_to env p ?st) = ide_events ?st @ new"
      using save_to_events [of env p ?st] by blast
    then show ?thesis using None Some by (simp add: save_current_file_def Let_def ide_event_def)
  qed
qed

lemma ensure_current_file_saved_events:
  assumes "current_file st \<noteq> None" and "editor_modified st"
  shows "\<exists>rest. ide_events (snd (ensure_current_file_saved env u st)) =
           ide_events st @ Ev_dialog ''Unsaved changes'' # rest"
proof -
  let ?st1 = "ide_event (Ev_dialog ''Unsaved changes'') st"
  obtain new where "ide_events (save_current_file env u ?st1) = ide_events ?st1 @ new"
    using save_current_file_events [of env u ?st1] by blast
  then show ?thesis using assms by (simp add: ensure_current_file_saved_def Let_def)
qed

lemma ensure_current_file_saved_declined:
  assumes "current_file st \<noteq> None" and "editor_modified st" and "\<not> askyesno u"
  shows "ensure_current_file_saved env u st = (False, ide_event (Ev_dialog ''Unsaved changes'') st)"
  using assms by (auto simp add: ensure_current_file_saved_def Let_def)

lemma ensure_current_file_saved_no_file:
  assumes "current_file st = None"
  shows "ensure_current_file_saved env u st = (False, ide_event (Ev_dialog ''No file'') st)"
  using assms by (simp add: ensure_current_file_saved_def)

lemma current_file_dispatch_events:
  assumes "act = compile_current_file \<or> act = run_current_file"
    and "current_file st \<noteq> None" and "editor_modified st"
  shows "\<exists>rest. ide_events (snd (act env u st)) =
           ide_events st @ Ev_dialog ''Unsaved changes'' # rest"
proof -
  obtain ok st1 where e: "ensure_current_file_saved env u st = (ok, st1)"
    by (cases "ensure_current_file_saved env u st")
  obtain rest where "ide_events st1 = ide_events st @ Ev_dialog ''Unsaved changes'' # rest"
    using ensure_current_file_saved_events [OF assms(2,3), of env u] e by auto
  then show ?thesis
    using assms(1) e
    by (cases ok)
      (auto simp add: compile_current_file_def run_current_file_def run_async_fields
        split: option.splits)
qed

subsection \<open>The children of the workers and their working directories\<close>




lemma run_and_report_events [simp]:
  "ide_events (snd (run_and_report env thr cmd cwd st)) = ide_events st @ [Ev_spawn cmd cwd]"
  by (simp add: run_and_report_def Let_def split: run_result.splits)

lemma run_and_report_files:
  "ide_files (snd (run_and_report env thr cmd cwd st)) = files_after env cmd cwd (ide_files st)"
  by (simp add: run_and_report_def files_after_def Let_def split: run_result.splits)

lemma report_case_events:
  assumes "\<And>code s. ide_events (k code s) = ide_events s"
  shows "ide_events (snd (case run_and_report env thr cmd cwd st of
                      (Inl ex, st1) \<Rightarrow> (Raised ex, st1)
                    | (Inr code, st1) \<Rightarrow> (Returned, k code st1))) =
         ide_events st @ [Ev_spawn cmd cwd]"
proof -
  obtain r st1 where e: "run_and_report env thr cmd cwd st = (r, st1)"
    by (cases "run_and_report env thr cmd cwd st")
  then have "ide_events st1 = ide_events st @ [Ev_spawn cmd cwd]"
    using run_and_report_events [of env thr cmd cwd st] by simp
  then show ?thesis using e assms by (cases r) simp_all
qed







subsection \<open>Missing tools\<close>


lemma run_worker_java_missing:
  assumes "active_path st = Some p" and "detect_language p = Some ''java''"
    and "\<not> which env ''java''"
  shows "run_worker env st =
           (Returned,
            console_writeline ''java runtime not found in PATH'' ''stderr''
              (console_writeline (''File: '' @ path_str p) ''system''
                 (console_writeline ''========== Run =========='' ''system'' st)))"
  using assms by (simp add: run_worker_def Let_def)

lemma compile_try_tool_missing:
  assumes "lower (path_suffix p) = ''.c'' \<and> tool = ''gcc'' \<and> hint = ''GCC'' \<or>
           lower (path_suffix p) \<in> set [''.cpp'', ''.cc'', ''.cxx''] \<and> tool = ''g++'' \<and> hint = ''G++'' \<or>
           lower (path_suffix p) = ''.java'' \<and> tool = ''javac'' \<and> hint = ''JDK''"
    and "\<not> which env tool"
  shows "compile_try env thr p st =
           (Returned,
            append_console thr (tool @ '' not found. Please install '' @ hint @ ''.'' @ newline) st)"
  using assms by (elim disjE conjE) (auto simp add: compile_try_def Let_def)

lemma suffix_main_java: "lower (path_suffix (Path [''proj'', ''Main.java''])) = ''.java''"
  by (simp add: path_suffix_def path_name_def lower_def lower_char_def Let_def)

lemma stem_main_java: "stem (Path [''proj'', ''Main.java'']) = ''Main''"
  by (simp add: stem_def path_name_def Let_def)

lemma main_java_paths:
  "path_str (Path [''proj'', ''Main.java'']) = ''/proj/Main.java''"
  "path_str (parent (Path [''proj'', ''Main.java''])) = ''/proj''"
  "path_name (Path [''proj'', ''Main.java'']) = ''Main.java''"
  "with_suffix (Path [''proj'', ''Main.java'']) ''.class'' = Path [''proj'', ''Main.class'']"
  "detect_language (Path [''proj'', ''Main.java'']) = Some ''java''"
  by (simp_all add: path_str_def parent_def path_name_def with_suffix_def joinpath_def
      stem_main_java detect_language_cases suffix_main_java)

subsection \<open>The Java branches\<close>

lemma compile_worker_java:
  assumes "active_path st = Some p" and "detect_language p = Some ''java''"
    and "which env ''javac''"
  shows "compile_worker env st =
           execute_command env [''javac'', path_str p] (path_str (parent p))
             (console_writeline (''File: '' @ path_str p) ''system''
                (console_writeline ''========== Compile =========='' ''system''
                   (record_event Ev_compile st)))"
  using assms by (simp add: compile_worker_def Let_def)

lemma compile_worker_java_returns:
  assumes "active_path st = Some p" and "detect_language p = Some ''java''"
  shows "fst (compile_worker env st) = Returned"
  using assms by (simp add: compile_worker_def Let_def)

text \<open>
  With \<open>java\<close> on the search path and no class file, the run worker starts \<open>java\<close> on
  whatever state the compile step has left.
\<close>

lemma run_worker_java_unguarded:
  assumes "active_path st = Some p" and "detect_language p = Some ''java''"
    and "which env ''java''"
    and "\<not> path_exists (files st) (with_suffix p ''.class'')"
    and "st1 = console_writeline ''Class not found. Compiling first...'' ''system''
                 (console_writeline (''File: '' @ path_str p) ''system''
                    (console_writeline ''========== Run =========='' ''system'' st))"
  shows "run_worker env st =
           execute_command env [''java'', ''-cp'', path_str (parent p), stem p]
             (path_str (parent p)) (snd (compile_worker env st1))"
proof -
  have a: "active_path st1 = Some p" using assms(1,5) by simp
  obtain r st3 where c: "compile_worker env st1 = (r, st3)" by (cases "compile_worker env st1")
  then have r: "r = Returned" using compile_worker_java_returns [OF a assms(2), of env] by simp
  show ?thesis
    using assms(1-4) c r unfolding assms(5)
    by (simp add: run_worker_def Let_def)
qed

lemma report_case_files:
  assumes "\<And>code s. ide_files (k code s) = ide_files s"
  shows "ide_files (snd (case run_and_report env thr cmd cwd st of
                      (Inl ex, st1) \<Rightarrow> (Raised ex, st1)
                    | (Inr code, st1) \<Rightarrow> (Returned, k code st1))) =
         files_after env cmd cwd (ide_files st)"
proof -
  obtain r st1 where e: "run_and_report env thr cmd cwd st = (r, st1)"
    by (cases "run_and_report env thr cmd cwd st")
  then have "ide_files st1 = files_after env cmd cwd (ide_files st)"
    using run_and_report_files [of env thr cmd cwd st] by simp
  then show ?thesis using e assms by (cases r) simp_all
qed

lemma compile_java:
  assumes "lower (path_suffix p) = ''.java''" and "which env ''javac''"
  shows "ide_events (snd (compile env thr p st)) =
           ide_events st @ [Ev_compile, Ev_spawn [''javac'', path_name p] (path_str (parent p))]"
    and "ide_files (snd (compile env thr p st)) =
           files_after env [''javac'', path_name p] (path_str (parent p)) (ide_files st)"
proof -
  let ?st2 = "append_console thr (''Compiling '' @ relpath env p @ newline @ newline)
                (clear_console thr (ide_event Ev_compile st))"
  obtain r st3 where c: "compile_try env thr p ?st2 = (r, st3)"
    by (cases "compile_try env thr p ?st2")
  have "ide_events (snd (compile_try env thr p ?st2)) =
          ide_events ?st2 @ [Ev_spawn [''javac'', path_name p] (path_str (parent p))]"
    using assms by (simp add: compile_try_def Let_def report_case_events)
  then have e: "ide_events st3 =
      ide_events st @ [Ev_compile, Ev_spawn [''javac'', path_name p] (path_str (parent p))]"
    using c by simp
  have "ide_files (snd (compile_try env thr p ?st2)) =
          files_after env [''javac'', path_name p] (path_str (parent p)) (ide_files ?st2)"
    using assms by (simp add: compile_try_def Let_def report_case_files)
  then have f: "ide_files st3 =
           files_after env [''javac'', path_name p] (path_str (parent p)) (ide_files st)"
    using c by simp
  show "ide_events (snd (compile env thr p st)) =
           ide_events st @ [Ev_compile, Ev_spawn [''javac'', path_name p] (path_str (parent p))]"
    using c e by (cases r) (simp_all add: compile_def Let_def)
  show "ide_files (snd (compile env thr p st)) =
           files_after env [''javac'', path_name p] (path_str (parent p)) (ide_files st)"
    using c f by (cases r) (simp_all add: compile_def Let_def)
qed

lemma compile_java_missing:
  assumes "lower (path_suffix p) = ''.java''" and "\<not> which env ''javac''"
  shows "ide_events (snd (compile env thr p st)) = ide_events st @ [Ev_compile]"
    and "ide_files (snd (compile env thr p st)) = ide_files st"
  using assms by (simp_all add: compile_def compile_try_def Let_def)

text \<open>
  \<open>CompilerIDEApp._run\<close> tests the class file again after the compile step: while it
  is still not there, the run ends with what the compile step has done.
\<close>

lemma run_java_guarded:
  assumes "lower (path_suffix p) = ''.java''" and "which env ''java''"
    and "\<not> path_exists (ide_files st) (with_suffix p ''.class'')"
    and "st1 = append_console thr (''Class not found. Compiling first...'' @ newline @ newline)
                 (append_console thr (''Running '' @ relpath env p @ newline @ newline)
                    (clear_console thr st))"
    and "\<not> path_exists (ide_files (snd (compile env thr p st1))) (with_suffix p ''.class'')"
  shows "run env thr p st = (Returned, snd (compile env thr p st1))"
proof -
  let ?st0 = "append_console thr (''Running '' @ relpath env p @ newline @ newline)
                (clear_console thr st)"
  obtain r st2 where c: "compile env thr p st1 = (r, st2)" by (cases "compile env thr p st1")
  then have r: "r = Returned" using compile_returns [of env thr p st1] by simp
  have n: "\<not> path_exists (ide_files ?st0) (with_suffix p ''.class'')" using assms(3) by simp
  have "run_try env thr p ?st0 = (Returned, st2)"
    using assms(1,2,5) n c r unfolding assms(4)
    by (simp add: run_try_def Let_def)
  then show ?thesis using c by (simp add: run_def Let_def)
qed

lemma lower_examples:
  "lower ''.HpP'' = ''.hpp''"
  "lower [CHR ''.'', CHR 0xC9] = [CHR ''.'', CHR 0xE9]"
  "lower [CHR 0xD7, CHR 0xDF] = [CHR 0xD7, CHR 0xDF]"
  by (simp_all add: lower_def lower_char_def)

subsection \<open>The places where CompilerIDEApp starts a child\<close>

text \<open>
  What the block around one \<open>subprocess.run\<close> yields, when the call raises and when it
  returns; \<open>k\<close> is what the branch does with the return code.
\<close>

lemma report_case_raised:
  assumes "raised (subprocess_run env cmd cwd (ide_files st)) = Some ex"
  shows "(case run_and_report env thr cmd cwd st of
            (Inl ex, st1) \<Rightarrow> (Raised ex, st1)
          | (Inr code, st1) \<Rightarrow> (Returned, k code st1)) =
         (Raised ex,
          (ide_event (Ev_spawn cmd cwd)
             (append_console thr (''$ '' @ join '' '' cmd @ newline) st))
           \<lparr>ide_files := files_after env cmd cwd (ide_files st)\<rparr>)"
  by (simp add: run_and_report_raised [OF assms])

lemma run_and_report_completed:
  assumes "subprocess_run env cmd cwd (ide_files st) = Completed proc"
  shows "run_and_report env thr cmd cwd st =
           (Inr (returncode proc),
            handle_completed_process thr proc
              ((ide_event (Ev_spawn cmd cwd)
                 (append_console thr (''$ '' @ join '' '' cmd @ newline) st))
               \<lparr>ide_files := files_after env cmd cwd (ide_files st)\<rparr>))"
  using assms
  by (simp add: run_and_report_def files_after_def Let_def ide_event_def
      append_console_def call_ui_def)

lemma report_case_completed:
  assumes "subprocess_run env cmd cwd (ide_files st) = Completed proc"
  shows "(case run_and_report env thr cmd cwd st of
            (Inl ex, st1) \<Rightarrow> (Raised ex, st1)
          | (Inr code, st1) \<Rightarrow> (Returned, k code st1)) =
         (Returned,
          k (returncode proc)
            (handle_completed_process thr proc
               ((ide_event (Ev_spawn cmd cwd)
                  (append_console thr (''$ '' @ join '' '' cmd @ newline) st))
                \<lparr>ide_files := files_after env cmd cwd (ide_files st)\<rparr>)))"
  by (simp add: run_and_report_completed [OF assms])

text \<open>The command of each branch of \<open>_compile\<close> that starts a child.\<close>

lemma compile_try_site:
  assumes "lower (path_suffix p) = ''.py''
             \<and> cmd = [sys_executable env, ''-m'', ''py_compile'', path_name p]
             \<and> k = (\<lambda>code s. if code = 0
                       then append_console thr
                              (newline @ ''Python byte-compile successful.'' @ newline) s
                       else s)
           \<or> lower (path_suffix p) = ''.c'' \<and> which env ''gcc''
             \<and> cmd = [''gcc'', ''-O2'', ''-Wall'', ''-o'', path_name (with_suffix p []), path_name p]
             \<and> k = (\<lambda>code s. if code = 0 then s\<lparr>last_executable := Some (with_suffix p [])\<rparr>
                       else s)
           \<or> lower (path_suffix p) \<in> set [''.cpp'', ''.cc'', ''.cxx''] \<and> which env ''g++''
             \<and> cmd = [''g++'', ''-std=c++17'', ''-O2'', ''-Wall'', ''-o'',
                      path_name (with_suffix p []), path_name p]
             \<and> k = (\<lambda>code s. if code = 0 then s\<lparr>last_executable := Some (with_suffix p [])\<rparr>
                       else s)
           \<or> lower (path_suffix p) = ''.java'' \<and> which env ''javac''
             \<and> cmd = [''javac'', path_name p]
             \<and> k = (\<lambda>code s. if code = 0
                       then s\<lparr>last_executable := Some (with_suffix p ''.class'')\<rparr>
                       else s)"
  shows "compile_try env thr p st =
           (case run_and_report env thr cmd (path_str (parent p)) st of
              (Inl ex, st1) \<Rightarrow> (Raised ex, st1)
            | (Inr code, st1) \<Rightarrow> (Returned, k code st1))"
  using assms by (elim disjE conjE) (auto simp add: compile_try_def Let_def)

text \<open>The command of each branch of \<open>_run\<close> that starts a child, and the state it starts in.\<close>

lemma run_native_site:
  assumes "stc = (if path_exists (ide_files st) (with_suffix p []) then st
                  else snd (compile env thr p
                         (append_console thr
                            (''Executable not found. Compiling first...'' @ newline @ newline) st)))"
    and "path_exists (ide_files stc) (with_suffix p [])"
  shows "run_native env thr p st =
           (case run_and_report env thr [path_str (with_suffix p [])] (path_str (parent p)) stc of
              (Inl ex, st1) \<Rightarrow> (Raised ex, st1)
            | (Inr code, st1) \<Rightarrow> (Returned, st1))"
proof (cases "path_exists (ide_files st) (with_suffix p [])")
  case True
  then show ?thesis using assms by (simp add: run_native_def Let_def)
next
  case False
  let ?st1 = "append_console thr
                (''Executable not found. Compiling first...'' @ newline @ newline) st"
  obtain r st2 where c: "compile env thr p ?st1 = (r, st2)" by (cases "compile env thr p ?st1")
  have r: "r = Returned" using compile_returns [of env thr p ?st1] c by simp
  have s: "stc = st2" using assms(1) False c by simp
  show ?thesis using False c r s assms(2) by (simp add: run_native_def Let_def)
qed

lemma run_try_site:
  assumes "lower (path_suffix p) = ''.py'' \<and> cmd = [sys_executable env, path_name p] \<and> stc = st
           \<or> (lower (path_suffix p) = ''.c'' \<or> lower (path_suffix p) \<in> set [''.cpp'', ''.cc'', ''.cxx''])
             \<and> cmd = [path_str (with_suffix p [])]
             \<and> stc = (if path_exists (ide_files st) (with_suffix p []) then st
                      else snd (compile env thr p
                             (append_console thr
                                (''Executable not found. Compiling first...'' @ newline @ newline)
                                st)))
             \<and> path_exists (ide_files stc) (with_suffix p [])
           \<or> lower (path_suffix p) = ''.java'' \<and> which env ''java''
             \<and> cmd = [''java'', ''-cp'', ''.'', stem p]
             \<and> stc = (if path_exists (ide_files st) (with_suffix p ''.class'') then st
                      else snd (compile env thr p
                             (append_console thr
                                (''Class not found. Compiling first...'' @ newline @ newline) st)))
             \<and> path_exists (ide_files stc) (with_suffix p ''.class'')"
  shows "run_try env thr p st =
           (case run_and_report env thr cmd (path_str (parent p)) stc of
              (Inl ex, st1) \<Rightarrow> (Raised ex, st1)
            | (Inr code, st1) \<Rightarrow> (Returned, st1))"
  using assms
proof (elim disjE conjE)
  assume "lower (path_suffix p) = ''.py''" "cmd = [sys_executable env, path_name p]" "stc = st"
  then show ?thesis by (simp add: run_try_def Let_def)
next
  assume e: "lower (path_suffix p) = ''.c''" and c: "cmd = [path_str (with_suffix p [])]"
    and s: "stc = (if path_exists (ide_files st) (with_suffix p []) then st
                      else snd (compile env thr p
                             (append_console thr
                                (''Executable not found. Compiling first...'' @ newline @ newline)
                                st)))"
    and x: "path_exists (ide_files stc) (with_suffix p [])"
  have "run_try env thr p st = run_native env thr p st" using e by (simp add: run_try_def Let_def)
  then show ?thesis using run_native_site [OF s x] c by simp
next
  assume e: "lower (path_suffix p) \<in> set [''.cpp'', ''.cc'', ''.cxx'']"
    and c: "cmd = [path_str (with_suffix p [])]"
    and s: "stc = (if path_exists (ide_files st) (with_suffix p []) then st
                      else snd (compile env thr p
                             (append_console thr
                                (''Executable not found. Compiling first...'' @ newline @ newline)
                                st)))"
    and x: "path_exists (ide_files stc) (with_suffix p [])"
  have "run_try env thr p st = run_native env thr p st"
    using e by (auto simp add: run_try_def Let_def)
  then show ?thesis using run_native_site [OF s x] c by simp
next
  assume e: "lower (path_suffix p) = ''.java''" and w: "which env ''java''"
    and c: "cmd = [''java'', ''-cp'', ''.'', stem p]"
    and s: "stc = (if path_exists (ide_files st) (with_suffix p ''.class'') then st
                      else snd (compile env thr p
                             (append_console thr
                                (''Class not found. Compiling first...'' @ newline @ newline) st)))"
    and x: "path_exists (ide_files stc) (with_suffix p ''.class'')"
  show ?thesis
  proof (cases "path_exists (ide_files st) (with_suffix p ''.class'')")
    case True
    then show ?thesis using e w c s by (simp add: run_try_def Let_def)
  next
    case False
    let ?st1 = "append_console thr
                  (''Class not found. Compiling first...'' @ newline @ newline) st"
    obtain r st2 where k: "compile env thr p ?st1 = (r, st2)" by (cases "compile env thr p ?st1")
    have r: "r = Returned" using compile_returns [of env thr p ?st1] k by simp
    have "stc = st2" using s False k by simp
    then show ?thesis using e w c False k r x by (simp add: run_try_def Let_def)
  qed
qed

lemma compile_of_try:
  "compile env thr p st =
     (case compile_try env thr p
             (append_console thr (''Compiling '' @ relpath env p @ newline @ newline)
                (clear_console thr (ide_event Ev_compile st))) of
        (Raised ex, st3) \<Rightarrow> (Returned, append_console thr (''Error: '' @ ex @ newline) st3)
      | (Returned, st3) \<Rightarrow> (Returned, st3))"
  by (simp add: compile_def Let_def)

lemma run_of_try:
  "run env thr p st =
     (case run_try env thr p
             (append_console thr (''Running '' @ relpath env p @ newline @ newline)
                (clear_console thr st)) of
        (Raised ex, st3) \<Rightarrow> (Returned, append_console thr (''Error: '' @ ex @ newline) st3)
      | (Returned, st3) \<Rightarrow> (Returned, st3))"
  by (simp add: run_def Let_def)

lemma compile_site_result:
  assumes site: "lower (path_suffix p) = ''.py''
             \<and> cmd = [sys_executable env, ''-m'', ''py_compile'', path_name p]
             \<and> k = (\<lambda>code s. if code = 0
                       then append_console thr
                              (newline @ ''Python byte-compile successful.'' @ newline) s
                       else s)
           \<or> lower (path_suffix p) = ''.c'' \<and> which env ''gcc''
             \<and> cmd = [''gcc'', ''-O2'', ''-Wall'', ''-o'', path_name (with_suffix p []), path_name p]
             \<and> k = (\<lambda>code s. if code = 0 then s\<lparr>last_executable := Some (with_suffix p [])\<rparr>
                       else s)
           \<or> lower (path_suffix p) \<in> set [''.cpp'', ''.cc'', ''.cxx''] \<and> which env ''g++''
             \<and> cmd = [''g++'', ''-std=c++17'', ''-O2'', ''-Wall'', ''-o'',
                      path_name (with_suffix p []), path_name p]
             \<and> k = (\<lambda>code s. if code = 0 then s\<lparr>last_executable := Some (with_suffix p [])\<rparr>
                       else s)
           \<or> lower (path_suffix p) = ''.java'' \<and> which env ''javac''
             \<and> cmd = [''javac'', path_name p]
             \<and> k = (\<lambda>code s. if code = 0
                       then s\<lparr>last_executable := Some (with_suffix p ''.class'')\<rparr>
                       else s)"
    and st2: "st2 = append_console thr (''Compiling '' @ relpath env p @ newline @ newline)
                      (clear_console thr (ide_event Ev_compile st))"
    and echoed: "echoed =
                   (ide_event (Ev_spawn cmd (path_str (parent p)))
                      (append_console thr (''$ '' @ join '' '' cmd @ newline) st2))
                    \<lparr>ide_files := files_after env cmd (path_str (parent p)) (ide_files st)\<rparr>"
  shows "(raised (subprocess_run env cmd (path_str (parent p)) (ide_files st)) = Some ex \<longrightarrow>
            compile env thr p st =
              (Returned, append_console thr (''Error: '' @ ex @ newline) echoed))
       \<and> (subprocess_run env cmd (path_str (parent p)) (ide_files st) = Completed proc \<longrightarrow>
            compile env thr p st =
              (Returned, k (returncode proc) (handle_completed_process thr proc echoed)))"
proof -
  have f: "ide_files st2 = ide_files st" unfolding st2 by simp
  have t: "compile_try env thr p st2 =
           (case run_and_report env thr cmd (path_str (parent p)) st2 of
              (Inl ex, st1) \<Rightarrow> (Raised ex, st1)
            | (Inr code, st1) \<Rightarrow> (Returned, k code st1))"
    using site by (rule compile_try_site)
  have c: "compile env thr p st =
     (case compile_try env thr p st2 of
        (Raised ex, st3) \<Rightarrow> (Returned, append_console thr (''Error: '' @ ex @ newline) st3)
      | (Returned, st3) \<Rightarrow> (Returned, st3))"
    unfolding st2 by (rule compile_of_try)
  show ?thesis
  proof (intro conjI impI)
    assume "raised (subprocess_run env cmd (path_str (parent p)) (ide_files st)) = Some ex"
    then have "raised (subprocess_run env cmd (path_str (parent p)) (ide_files st2)) = Some ex"
      using f by simp
    then show "compile env thr p st =
              (Returned, append_console thr (''Error: '' @ ex @ newline) echoed)"
      unfolding c t echoed by (simp add: report_case_raised f)
  next
    assume "subprocess_run env cmd (path_str (parent p)) (ide_files st) = Completed proc"
    then have "subprocess_run env cmd (path_str (parent p)) (ide_files st2) = Completed proc"
      using f by simp
    then show "compile env thr p st =
              (Returned, k (returncode proc) (handle_completed_process thr proc echoed))"
      unfolding c t echoed by (simp add: report_case_completed f)
  qed
qed

lemma run_site_result:
  assumes st2: "st2 = append_console thr (''Running '' @ relpath env p @ newline @ newline)
                      (clear_console thr st)"
    and site: "lower (path_suffix p) = ''.py'' \<and> cmd = [sys_executable env, path_name p] \<and> stc = st2
           \<or> (lower (path_suffix p) = ''.c'' \<or> lower (path_suffix p) \<in> set [''.cpp'', ''.cc'', ''.cxx''])
             \<and> cmd = [path_str (with_suffix p [])]
             \<and> stc = (if path_exists (ide_files st2) (with_suffix p []) then st2
                      else snd (compile env thr p
                             (append_console thr
                                (''Executable not found. Compiling first...'' @ newline @ newline)
                                st2)))
             \<and> path_exists (ide_files stc) (with_suffix p [])
           \<or> lower (path_suffix p) = ''.java'' \<and> which env ''java''
             \<and> cmd = [''java'', ''-cp'', ''.'', stem p]
             \<and> stc = (if path_exists (ide_files st2) (with_suffix p ''.class'') then st2
                      else snd (compile env thr p
                             (append_console thr
                                (''Class not found. Compiling first...'' @ newline @ newline) st2)))
             \<and> path_exists (ide_files stc) (with_suffix p ''.class'')"
    and echoed: "echoed =
                   (ide_event (Ev_spawn cmd (path_str (parent p)))
                      (append_console thr (''$ '' @ join '' '' cmd @ newline) stc))
                    \<lparr>ide_files := files_after env cmd (path_str (parent p)) (ide_files stc)\<rparr>"
  shows "(raised (subprocess_run env cmd (path_str (parent p)) (ide_files stc)) = Some ex \<longrightarrow>
            run env thr p st =
              (Returned, append_console thr (''Error: '' @ ex @ newline) echoed))
       \<and> (subprocess_run env cmd (path_str (parent p)) (ide_files stc) = Completed proc \<longrightarrow>
            run env thr p st = (Returned, handle_completed_process thr proc echoed))"
proof -
  have t: "run_try env thr p st2 =
           (case run_and_report env thr cmd (path_str (parent p)) stc of
              (Inl ex, st1) \<Rightarrow> (Raised ex, st1)
            | (Inr code, st1) \<Rightarrow> (Returned, st1))"
    using site by (rule run_try_site)
  have c: "run env thr p st =
     (case run_try env thr p st2 of
        (Raised ex, st3) \<Rightarrow> (Returned, append_console thr (''Error: '' @ ex @ newline) st3)
      | (Returned, st3) \<Rightarrow> (Returned, st3))"
    unfolding st2 by (rule run_of_try)
  show ?thesis
  proof (intro conjI impI)
    assume "raised (subprocess_run env cmd (path_str (parent p)) (ide_files stc)) = Some ex"
    then show "run env thr p st =
              (Returned, append_console thr (''Error: '' @ ex @ newline) echoed)"
      unfolding c t echoed by (simp add: report_case_raised)
  next
    assume "subprocess_run env cmd (path_str (parent p)) (ide_files stc) = Completed proc"
    then show "run env thr p st = (Returned, handle_completed_process thr proc echoed)"
      unfolding c t echoed by (simp add: report_case_completed)
  qed
qed

lemma suffix_a_py: "lower (path_suffix (Path [''proj'', ''a.py''])) = ''.py''"
  by (simp add: path_suffix_def path_name_def lower_def lower_char_def Let_def)

lemma a_py_paths:
  "path_str (Path [''proj'', ''a.py'']) = ''/proj/a.py''"
  "path_str (parent (Path [''proj'', ''a.py''])) = ''/proj''"
  "path_name (Path [''proj'', ''a.py'']) = ''a.py''"
  by (simp_all add: path_str_def parent_def path_name_def)


subsection \<open>The C and C++ branches, in full\<close>





lemma set_running_active_path [simp]: "active_path (set_running r st) = active_path st"
  by (simp add: set_running_def)






subsection \<open>The buttons and the completion callbacks of CompilerIDEApp\<close>

lemma pending_done_simps [simp]:
  "pending_done (st\<lparr>ui_calls := ui_calls st @ [Task_done]\<rparr>) = Suc (pending_done st)"
  "c \<noteq> Task_done \<Longrightarrow> pending_done (st\<lparr>ui_calls := ui_calls st @ [c]\<rparr>) = pending_done st"
  "pending_done (st\<lparr>ui_calls := []\<rparr>) = 0"
  by (simp_all add: pending_done_def)

lemma dispatch_state_call_ui:
  "c \<noteq> Task_done \<Longrightarrow> dispatch_state (call_ui thr c st) = dispatch_state st"
  by (cases c) (simp_all add: dispatch_state_def call_ui_def pending_done_def)

lemma dispatch_state_console [simp]:
  "dispatch_state (append_console thr t st) = dispatch_state st"
  "dispatch_state (clear_console thr st) = dispatch_state st"
  "dispatch_state (set_status thr s st) = dispatch_state st"
  "dispatch_state (ide_event e st) = dispatch_state st"
  "dispatch_state (st\<lparr>ide_files := f\<rparr>) = dispatch_state st"
  "dispatch_state (st\<lparr>last_executable := x\<rparr>) = dispatch_state st"
  "dispatch_state (st\<lparr>current_file := y\<rparr>) = dispatch_state st"
  "dispatch_state (st\<lparr>editor_modified := m\<rparr>) = dispatch_state st"
  by (simp_all add: append_console_def clear_console_def set_status_def
      dispatch_state_call_ui)
    (simp_all add: dispatch_state_def pending_done_def ide_event_def)

lemma dispatch_state_handle [simp]:
  "dispatch_state (handle_completed_process thr proc st) = dispatch_state st"
  by (simp add: handle_completed_process_def Let_def)

lemma dispatch_state_run_and_report [simp]:
  "dispatch_state (snd (run_and_report env thr cmd cwd st)) = dispatch_state st"
  by (simp add: run_and_report_def Let_def split: run_result.splits)

lemma report_case_dispatch_state:
  assumes "\<And>code s. dispatch_state (k code s) = dispatch_state s"
  shows "dispatch_state (snd (case run_and_report env thr cmd cwd st of
                      (Inl ex, st1) \<Rightarrow> (Raised ex, st1)
                    | (Inr code, st1) \<Rightarrow> (Returned, k code st1))) =
         dispatch_state st"
proof -
  obtain r st1 where e: "run_and_report env thr cmd cwd st = (r, st1)"
    by (cases "run_and_report env thr cmd cwd st")
  then have "dispatch_state st1 = dispatch_state st"
    using dispatch_state_run_and_report [of env thr cmd cwd st] by simp
  then show ?thesis using e assms by (cases r) simp_all
qed

lemma dispatch_state_compile_try:
  "dispatch_state (snd (compile_try env thr p st)) = dispatch_state st"
  by (simp add: compile_try_def Let_def report_case_dispatch_state)

lemma dispatch_state_compile [simp]:
  "dispatch_state (snd (compile env thr p st)) = dispatch_state st"
proof -
  let ?st2 = "append_console thr (''Compiling '' @ relpath env p @ newline @ newline)
                (clear_console thr (ide_event Ev_compile st))"
  obtain r st3 where c: "compile_try env thr p ?st2 = (r, st3)"
    by (cases "compile_try env thr p ?st2")
  have "dispatch_state st3 = dispatch_state ?st2"
    using dispatch_state_compile_try [of env thr p ?st2] c by simp
  then show ?thesis using c by (cases r) (simp_all add: compile_def Let_def)
qed

lemma dispatch_state_run_native:
  "dispatch_state (snd (run_native env thr p st)) = dispatch_state st"
proof (cases "path_exists (ide_files st) (with_suffix p [])")
  case True
  then show ?thesis by (simp add: run_native_def Let_def report_case_dispatch_state)
next
  case False
  let ?st1 = "append_console thr
                (''Executable not found. Compiling first...'' @ newline @ newline) st"
  obtain r st2 where c: "compile env thr p ?st1 = (r, st2)" by (cases "compile env thr p ?st1")
  have d: "dispatch_state st2 = dispatch_state st"
    using dispatch_state_compile [of env thr p ?st1] unfolding c by simp
  have r: "r = Returned" using compile_returns [of env thr p ?st1] c by simp
  show ?thesis
    using False c d r
    by (simp add: run_native_def Let_def report_case_dispatch_state)
qed

lemma dispatch_state_run_java:
  assumes "lower (path_suffix p) = ''.java''"
  shows "dispatch_state (snd (run_try env thr p st)) = dispatch_state st"
proof (cases "which env ''java'' \<and> \<not> path_exists (ide_files st) (with_suffix p ''.class'')")
  case False
  then show ?thesis
    using assms by (auto simp add: run_try_def Let_def report_case_dispatch_state)
next
  case True
  let ?st1 = "append_console thr
                (''Class not found. Compiling first...'' @ newline @ newline) st"
  obtain r st2 where c: "compile env thr p ?st1 = (r, st2)"
    by (cases "compile env thr p ?st1")
  have d: "dispatch_state st2 = dispatch_state st"
    using dispatch_state_compile [of env thr p ?st1] unfolding c by simp
  have r: "r = Returned" using compile_returns [of env thr p ?st1] c by simp
  show ?thesis
    using assms True c d r
    by (simp add: run_try_def Let_def report_case_dispatch_state)
qed

lemma dispatch_state_run_try:
  "dispatch_state (snd (run_try env thr p st)) = dispatch_state st"
proof -
  let ?ext = "lower (path_suffix p)"
  have "?ext = ''.py'' \<or> (?ext \<noteq> ''.py'' \<and> (?ext = ''.c'' \<or> ?ext \<in> set [''.cpp'', ''.cc'', ''.cxx'']))
        \<or> ?ext = ''.java'' \<or> ?ext \<notin> set [''.py'', ''.c'', ''.cpp'', ''.cc'', ''.cxx'', ''.java'']"
    by auto
  then consider (py) "?ext = ''.py''"
    | (native) "?ext \<noteq> ''.py''" "?ext = ''.c'' \<or> ?ext \<in> set [''.cpp'', ''.cc'', ''.cxx'']"
    | (java) "?ext = ''.java''"
    | (other) "?ext \<notin> set [''.py'', ''.c'', ''.cpp'', ''.cc'', ''.cxx'', ''.java'']"
    by (elim disjE conjE) simp_all
  then show ?thesis
  proof cases
    case py
    then show ?thesis by (simp add: run_try_def Let_def report_case_dispatch_state)
  next
    case native
    then have "run_try env thr p st = run_native env thr p st"
      by (auto simp add: run_try_def Let_def)
    then show ?thesis using dispatch_state_run_native [of env thr p st] by simp
  next
    case other
    then show ?thesis by (simp add: run_try_def Let_def)
  next
    case java
    then show ?thesis by (rule dispatch_state_run_java)
  qed
qed

lemma dispatch_state_run [simp]:
  "dispatch_state (snd (run env thr p st)) = dispatch_state st"
proof -
  let ?st2 = "append_console thr (''Running '' @ relpath env p @ newline @ newline)
                (clear_console thr st)"
  obtain r st3 where c: "run_try env thr p ?st2 = (r, st3)"
    by (cases "run_try env thr p ?st2")
  have "dispatch_state st3 = dispatch_state ?st2"
    using dispatch_state_run_try [of env thr p ?st2] c by simp
  then show ?thesis using c by (cases r) (simp_all add: run_def Let_def)
qed

text \<open>Saving before the dispatch starts no thread and leaves the buttons alone.\<close>

lemma save_to_quiet:
  "dispatch_state (save_to env p st) = dispatch_state st
   \<and> (\<exists>new. ide_events (save_to env p st) = ide_events st @ new \<and> threads new = [])"
  by (simp add: save_to_def Let_def split: option.splits)

lemma save_current_file_quiet:
  "dispatch_state (save_current_file env u st) = dispatch_state st
   \<and> (\<exists>new. ide_events (save_current_file env u st) = ide_events st @ new \<and> threads new = [])"
proof (cases "current_file st")
  case (Some p)
  then show ?thesis using save_to_quiet [of env p st] by (simp add: save_current_file_def)
next
  case None
  show ?thesis
  proof (cases "asksaveasfilename u")
    case n: None
    then show ?thesis using None by (simp add: save_current_file_def Let_def)
  next
    case (Some p)
    let ?st = "(ide_event (Ev_dialog ''asksaveasfilename'') st)\<lparr>current_file := Some p\<rparr>"
    obtain new where n: "dispatch_state (save_to env p ?st) = dispatch_state ?st"
      "ide_events (save_to env p ?st) = ide_events ?st @ new" "threads new = []"
      using save_to_quiet [of env p ?st] by blast
    have e: "ide_events ?st = ide_events st @ [Ev_dialog ''asksaveasfilename'']"
      by (simp add: ide_event_def)
    have "ide_events (save_to env p ?st) = ide_events st @ (Ev_dialog ''asksaveasfilename'' # new)
          \<and> threads (Ev_dialog ''asksaveasfilename'' # new) = []"
      using n e by simp
    then show ?thesis
      using None Some n(1) by (simp add: save_current_file_def Let_def del: append_assoc)
  qed
qed

lemma ensure_current_file_saved_quiet:
  "dispatch_state (snd (ensure_current_file_saved env u st)) = dispatch_state st
   \<and> (\<exists>new. ide_events (snd (ensure_current_file_saved env u st)) = ide_events st @ new
        \<and> threads new = [])"
proof -
  let ?st1 = "ide_event (Ev_dialog ''Unsaved changes'') st"
  obtain new where n: "dispatch_state (save_current_file env u ?st1) = dispatch_state ?st1"
    "ide_events (save_current_file env u ?st1) = ide_events ?st1 @ new" "threads new = []"
    using save_current_file_quiet [of env u ?st1] by blast
  have "ide_events (save_current_file env u ?st1) =
          ide_events st @ (Ev_dialog ''Unsaved changes'' # new)
        \<and> threads (Ev_dialog ''Unsaved changes'' # new) = []"
    using n by simp
  then have s: "\<exists>new. ide_events (save_current_file env u ?st1) = ide_events st @ new
        \<and> threads new = []"
    by blast
  have d: "\<exists>new. ide_events ?st1 = ide_events st @ new \<and> threads new = []"
    by simp
  have f: "\<exists>new. ide_events (ide_event (Ev_dialog ''No file'') st) = ide_events st @ new
        \<and> threads new = []"
    by simp
  show ?thesis
    using n(1) s d f by (simp add: ensure_current_file_saved_def Let_def)
qed

text \<open>
  A command of a button either starts no thread and leaves the buttons as they were, or
  starts one thread and leaves them disabled.
\<close>

lemma command_starts_at_most_one:
  assumes "cmd = compile_current_file \<or> cmd = run_current_file"
  shows "pending_done (snd (cmd env u st)) = pending_done st
   \<and> ((toolbar (snd (cmd env u st)) = toolbar st
        \<and> threads (new_events (ide_events st) (ide_events (snd (cmd env u st)))) = [])
       \<or> (toolbar (snd (cmd env u st)) = ''disabled''
           \<and> length (threads (new_events (ide_events st) (ide_events (snd (cmd env u st))))) = 1))"
proof -
  obtain ok st1 where e: "ensure_current_file_saved env u st = (ok, st1)"
    by (cases "ensure_current_file_saved env u st")
  obtain new where n: "dispatch_state st1 = dispatch_state st"
    "ide_events st1 = ide_events st @ new" "threads new = []"
    using ensure_current_file_saved_quiet [of env u st] e by auto
  have t: "toolbar st1 = toolbar st" "pending_done st1 = pending_done st"
    using n(1) by (simp_all add: dispatch_state_def)
  have r: "pending_done (run_async name st1) = pending_done st1" for name
    by (simp add: run_async_def set_toolbar_state_def set_status_def call_ui_def
        ide_event_def pending_done_def)
  show ?thesis
    using assms e n(2,3) t r
    by (elim disjE)
      (cases ok; cases "current_file st1";
        simp add: compile_current_file_def run_current_file_def run_async_fields)+
qed

lemma press_starts_at_most_one:
  assumes "cmd = compile_current_file \<or> cmd = run_current_file"
    and "toolbar st \<noteq> ''disabled''"
  shows "pending_done (snd (press (cmd env u) st)) = pending_done st
   \<and> ((toolbar (snd (press (cmd env u) st)) = toolbar st
        \<and> threads (new_events (ide_events st) (ide_events (snd (press (cmd env u) st)))) = [])
       \<or> (toolbar (snd (press (cmd env u) st)) = ''disabled''
           \<and> length (threads (new_events (ide_events st)
                (ide_events (snd (press (cmd env u) st))))) = 1))"
  using command_starts_at_most_one [OF assms(1), of env u st] assms(2)
  by (simp add: press_def)

lemma press_disabled:
  "toolbar st = ''disabled'' \<Longrightarrow> press command st = (Returned, st)"
  by (simp add: press_def)

text \<open>
  At most one worker is between its start and the run of its completion callback, and
  while there is one the buttons are disabled.
\<close>

lemma ide_reach_single_flight:
  assumes "ide_reach env st n"
  shows "n + pending_done st \<le> 1 \<and> (0 < n + pending_done st \<longrightarrow> toolbar st = ''disabled'')"
  using assms
proof (induction rule: ide_reach.induct)
  case (started st)
  then show ?case by simp
next
  case (pressed_compile st n st' u)
  show ?case
  proof (cases "toolbar st = ''disabled''")
    case True
    then have "st' = st" using pressed_compile.hyps(2) by (simp add: press_def)
    then show ?thesis using pressed_compile.IH by simp
  next
    case False
    then have z: "n = 0" "pending_done st = 0" using pressed_compile.IH by auto
    show ?thesis
      using press_starts_at_most_one [of compile_current_file st env u] False z
        pressed_compile.hyps(2)
      by auto
  qed
next
  case (pressed_run st n st' u)
  show ?case
  proof (cases "toolbar st = ''disabled''")
    case True
    then have "st' = st" using pressed_run.hyps(2) by (simp add: press_def)
    then show ?thesis using pressed_run.IH by simp
  next
    case False
    then have z: "n = 0" "pending_done st = 0" using pressed_run.IH by auto
    show ?thesis
      using press_starts_at_most_one [of run_current_file st env u] False z
        pressed_run.hyps(2)
      by auto
  qed
next
  case (worker_done st n)
  then show ?case by simp
next
  case (callback st n c cs)
  show ?case
  proof (cases "c = Task_done")
    case True
    then have "pending_done st = Suc (pending_done (st\<lparr>ui_calls := cs\<rparr>))"
      using callback.hyps(2) by (simp add: pending_done_def)
    then have "n = 0" "pending_done (st\<lparr>ui_calls := cs\<rparr>) = 0" using callback.IH by auto
    then show ?thesis using True by (simp add: pending_done_def set_toolbar_state_def)
  next
    case False
    then have "pending_done (run_ui_call c (st\<lparr>ui_calls := cs\<rparr>)) = pending_done st"
      "toolbar (run_ui_call c (st\<lparr>ui_calls := cs\<rparr>)) = toolbar st"
      using callback.hyps(2) by (cases c; simp add: pending_done_def)+
    then show ?thesis using callback.IH by simp
  qed
next
  case (other st n st')
  then show ?case by (simp add: dispatch_state_def)
qed

text \<open>
  The worker threads and the main loop of the sources stay inside \<open>ide_reach\<close>: a worker
  that runs \<open>_compile\<close> or \<open>_run\<close> to the end of its wrapper, and the main loop running
  every call handed to it.
\<close>

lemma ide_reach_wrapper:
  assumes "ide_reach env st (Suc n)"
    and "dispatch_state (snd (func st)) = dispatch_state st"
  shows "ide_reach env (snd (run_async_task_wrapper func st)) n"
proof -
  obtain r st1 where f: "func st = (r, st1)" by (cases "func st")
  have "ide_reach env st1 (Suc n)"
    using ide_reach.other [OF assms(1), of st1] assms(2) f by simp
  then have "ide_reach env (st1\<lparr>ui_calls := ui_calls st1 @ [Task_done]\<rparr>) n"
    by (rule ide_reach.worker_done)
  then show ?thesis using f by (simp add: run_async_task_wrapper_def)
qed

lemma ide_reach_fold:
  "ide_reach env st n \<Longrightarrow> ui_calls st = cs \<Longrightarrow>
   ide_reach env (fold run_ui_call cs (st\<lparr>ui_calls := []\<rparr>)) n"
proof (induction cs arbitrary: st)
  case Nil
  then have "dispatch_state (st\<lparr>ui_calls := []\<rparr>) = dispatch_state st"
    by (simp add: dispatch_state_def pending_done_def)
  then show ?case using ide_reach.other [OF Nil.prems(1)] by simp
next
  case (Cons c cs)
  let ?st1 = "run_ui_call c (st\<lparr>ui_calls := cs\<rparr>)"
  have r: "ide_reach env ?st1 n"
    using ide_reach.callback [OF Cons.prems(1) Cons.prems(2)] .
  have u: "ui_calls ?st1 = cs" by (cases c) (simp_all add: set_toolbar_state_def)
  have e: "?st1\<lparr>ui_calls := []\<rparr> = run_ui_call c (st\<lparr>ui_calls := []\<rparr>)"
    by (cases c) (simp_all add: set_toolbar_state_def)
  show ?case using Cons.IH [OF r u] e by simp
qed

lemma ide_reach_mainloop:
  "ide_reach env st n \<Longrightarrow> ide_reach env (mainloop_ui st) n"
  using ide_reach_fold [of env st n "ui_calls st"] by (simp add: mainloop_ui_def)

lemma busy_ide_simp:
  "busy_ide = run_async ''Running'' python_project_ide"
  by (simp add: busy_ide_def press_def run_current_file_def ensure_current_file_saved_def
      python_project_ide_def initial_ide_def)

lemma busy_ide_reach: "ide_reach example_env busy_ide 1"
proof -
  have s: "ide_reach example_env python_project_ide 0"
    by (rule ide_reach.started)
      (simp_all add: python_project_ide_def initial_ide_def pending_done_def)
  have "length (threads (new_events (ide_events python_project_ide) (ide_events busy_ide))) = 1"
    by (simp add: busy_ide_simp run_async_fields)
  then show ?thesis
    using ide_reach.pressed_run [OF s busy_ide_def] by simp
qed


section \<open>Single flight\<close>

text \<open>
  C1, for both applications. In \<open>CompilerApp\<close>, while the running flag is set,
  \<open>_run_background\<close> leaves the application as it is, and a compile or run action
  keeps the flag set and starts neither a thread nor a child, and with a file open and
  nothing to save it leaves the application as it is; with the flag clear,
  \<open>_run_background\<close> sets it, disables the toolbar and starts the thread. Whatever the
  body of the task does, returning or raising, once the main loop has run the callback
  that \<open>_task_wrapper\<close> hands to \<open>after\<close> the flag is clear, the buttons are enabled
  and the status reads \<open>Ready\<close>. In \<open>CompilerIDEApp\<close>, whose requests are the presses of
  its two buttons, every state the application reaches has at most one worker between its
  start and the run of its completion callback; while there is one the buttons are
  disabled and a press of Compile or Run changes nothing, so no thread is started. The
  worker threads of the sources and the main loop stay inside these states, a worker that
  ends being one worker less in flight. \<open>_run_async\<close> disables the buttons and starts
  the thread, and once the task has returned or raised and the main loop has run the
  callback of its \<open>finally\<close>, the buttons are enabled and the status reads \<open>Ready\<close>.
\<close>

theorem single_flight_dispatch:
  "(running st \<longrightarrow>
      run_background target st = st
      \<and> running (action_compile env u st) \<and> running (action_run env u st)
      \<and> threads (new_events (events st) (events (action_compile env u st))) = []
      \<and> threads (new_events (events st) (events (action_run env u st))) = []
      \<and> spawns (new_events (events st) (events (action_compile env u st))) = []
      \<and> spawns (new_events (events st) (events (action_run env u st))) = [])
   \<and> (running st \<and> \<not> editor_dirty st \<and> active_path st \<noteq> None \<longrightarrow>
        action_compile env u st = st \<and> action_run env u st = st)
   \<and> (\<not> running st \<longrightarrow>
        running (run_background target st)
        \<and> buttons (run_background target st) = ''disabled''
        \<and> events (run_background target st) = events st @ [Ev_thread target])
   \<and> \<not> running (mainloop_after (task_wrapper body st))
   \<and> buttons (mainloop_after (task_wrapper body st)) = ''normal''
   \<and> status_state (mainloop_after (task_wrapper body st)) = ''Ready''
   \<and> (ide_reach env ist n \<longrightarrow>
        n + pending_done ist \<le> 1
        \<and> (0 < n + pending_done ist \<longrightarrow>
              toolbar ist = ''disabled''
              \<and> press (compile_current_file env u) ist = (Returned, ist)
              \<and> press (run_current_file env u) ist = (Returned, ist))
        \<and> ide_reach env (mainloop_ui ist) n)
   \<and> (ide_reach env ist (Suc n) \<longrightarrow>
        ide_reach env (snd (run_async_task_wrapper (compile env Worker_thread p) ist)) n
        \<and> ide_reach env (snd (run_async_task_wrapper (run env Worker_thread p) ist)) n)
   \<and> toolbar (run_async name ist) = ''disabled''
   \<and> ide_events (run_async name ist) = ide_events ist @ [Ev_thread name]
   \<and> toolbar (mainloop_ui (snd (run_async_task_wrapper func ist))) = ''normal''
   \<and> status_var (mainloop_ui (snd (run_async_task_wrapper func ist))) = ''Ready''"
proof -
  have busy: "running st \<longrightarrow>
      run_background target st = st
      \<and> running (action_compile env u st) \<and> running (action_run env u st)
      \<and> threads (new_events (events st) (events (action_compile env u st))) = []
      \<and> threads (new_events (events st) (events (action_run env u st))) = []
      \<and> spawns (new_events (events st) (events (action_compile env u st))) = []
      \<and> spawns (new_events (events st) (events (action_run env u st))) = []"
  proof
    assume r: "running st"
    obtain nc where c: "events (action_compile env u st) = events st @ nc"
      "spawns nc = []" "threads nc = []"
      using action_dispatch_events [of action_compile env u st] r by auto
    obtain nr where n: "events (action_run env u st) = events st @ nr"
      "spawns nr = []" "threads nr = []"
      using action_dispatch_events [of action_run env u st] r by auto
    show "run_background target st = st
      \<and> running (action_compile env u st) \<and> running (action_run env u st)
      \<and> threads (new_events (events st) (events (action_compile env u st))) = []
      \<and> threads (new_events (events st) (events (action_run env u st))) = []
      \<and> spawns (new_events (events st) (events (action_compile env u st))) = []
      \<and> spawns (new_events (events st) (events (action_run env u st))) = []"
      using r c n run_background_busy [OF r, of target]
        action_dispatch_running [of action_compile st env u]
        action_dispatch_running [of action_run st env u]
      by simp
  qed
  have same: "running st \<and> \<not> editor_dirty st \<and> active_path st \<noteq> None \<longrightarrow>
        action_compile env u st = st \<and> action_run env u st = st"
    by (simp add: action_compile_def action_run_def ensure_save_before_action_def
        run_background_def)
  have idle: "\<not> running st \<longrightarrow>
        running (run_background target st)
        \<and> buttons (run_background target st) = ''disabled''
        \<and> events (run_background target st) = events st @ [Ev_thread target]"
    using run_background_idle [of st target] by blast
  have reach: "ide_reach env ist n \<longrightarrow>
        n + pending_done ist \<le> 1
        \<and> (0 < n + pending_done ist \<longrightarrow>
              toolbar ist = ''disabled''
              \<and> press (compile_current_file env u) ist = (Returned, ist)
              \<and> press (run_current_file env u) ist = (Returned, ist))
        \<and> ide_reach env (mainloop_ui ist) n"
  proof
    assume r: "ide_reach env ist n"
    have i: "n + pending_done ist \<le> 1"
      "0 < n + pending_done ist \<longrightarrow> toolbar ist = ''disabled''"
      using ide_reach_single_flight [OF r] by simp_all
    have p: "toolbar ist = ''disabled'' \<longrightarrow>
               press (compile_current_file env u) ist = (Returned, ist)
               \<and> press (run_current_file env u) ist = (Returned, ist)"
      by (simp add: press_disabled)
    show "n + pending_done ist \<le> 1
        \<and> (0 < n + pending_done ist \<longrightarrow>
              toolbar ist = ''disabled''
              \<and> press (compile_current_file env u) ist = (Returned, ist)
              \<and> press (run_current_file env u) ist = (Returned, ist))
        \<and> ide_reach env (mainloop_ui ist) n"
      using i p ide_reach_mainloop [OF r] by simp
  qed
  have workers: "ide_reach env ist (Suc n) \<longrightarrow>
        ide_reach env (snd (run_async_task_wrapper (compile env Worker_thread p) ist)) n
        \<and> ide_reach env (snd (run_async_task_wrapper (run env Worker_thread p) ist)) n"
    using ide_reach_wrapper [of env ist n "compile env Worker_thread p"]
      ide_reach_wrapper [of env ist n "run env Worker_thread p"]
    by simp
  show ?thesis
    using busy same idle reach workers task_wrapper_resets(1-3) [of body st]
      run_async_fields(1,2) [of name ist] run_async_task_wrapper_done(1,2) [of func ist]
    by blast
qed

theorem single_flight_dispatch_witness:
  "running busy_app \<and> active_path busy_app = Some (Path [''proj'', ''a.py''])
   \<and> \<not> editor_dirty busy_app
   \<and> run_background ''_run_worker'' busy_app = busy_app
   \<and> action_compile noisy_env cancelling_user busy_app = busy_app
   \<and> action_run noisy_env cancelling_user busy_app = busy_app
   \<and> threads (new_events (events busy_app)
        (events (action_run noisy_env cancelling_user busy_app))) = []
   \<and> spawns (new_events (events busy_app)
        (events (action_compile noisy_env cancelling_user busy_app))) = []
   \<and> \<not> running (mainloop_after (task_wrapper (run_worker noisy_env) busy_app))
   \<and> buttons (mainloop_after (task_wrapper (\<lambda>s. (Raised ''boom'', s)) busy_app)) = ''normal''
   \<and> running (run_background ''_run_worker'' python_project)
   \<and> ide_reach example_env busy_ide 1
   \<and> toolbar busy_ide = ''disabled''
   \<and> press (compile_current_file example_env cancelling_user) busy_ide = (Returned, busy_ide)
   \<and> press (run_current_file example_env cancelling_user) busy_ide = (Returned, busy_ide)
   \<and> ide_reach example_env
        (snd (run_async_task_wrapper (run example_env Worker_thread (Path [''proj'', ''a.py'']))
           busy_ide)) 0
   \<and> toolbar (mainloop_ui (snd (run_async_task_wrapper (\<lambda>s. (Raised ''boom'', s)) busy_ide))) =
       ''normal''"
proof -
  have r: "running busy_app" by (simp add: busy_app_def)
  have a: "active_path busy_app = Some (Path [''proj'', ''a.py''])"
    "\<not> editor_dirty busy_app"
    by (simp_all add: busy_app_def set_running_def python_project_def initial_app_def)
  have i: "\<not> running python_project" by (simp add: python_project_def initial_app_def)
  note b = single_flight_dispatch [where st = busy_app and target = "''_run_worker''"
      and env = noisy_env and u = cancelling_user and body = "run_worker noisy_env"]
  note c = single_flight_dispatch [where st = busy_app
      and body = "\<lambda>s. (Raised ''boom'', s)"]
  note d = single_flight_dispatch [where st = python_project and target = "''_run_worker''"]
  note e = single_flight_dispatch [where env = example_env and u = cancelling_user
      and ist = busy_ide and n = 1 and func = "\<lambda>s. (Raised ''boom'', s)"]
  note f = single_flight_dispatch [where env = example_env and ist = busy_ide and n = 0
      and p = "Path [''proj'', ''a.py'']"]
  have g: "ide_reach example_env busy_ide (Suc 0)" using busy_ide_reach by simp
  have c1: "run_background ''_run_worker'' busy_app = busy_app
   \<and> action_compile noisy_env cancelling_user busy_app = busy_app
   \<and> action_run noisy_env cancelling_user busy_app = busy_app
   \<and> threads (new_events (events busy_app)
        (events (action_run noisy_env cancelling_user busy_app))) = []
   \<and> spawns (new_events (events busy_app)
        (events (action_compile noisy_env cancelling_user busy_app))) = []
   \<and> \<not> running (mainloop_after (task_wrapper (run_worker noisy_env) busy_app))"
    using b r a by simp
  have c2: "buttons (mainloop_after (task_wrapper (\<lambda>s. (Raised ''boom'', s)) busy_app)) =
      ''normal''"
    using c by blast
  have c3: "running (run_background ''_run_worker'' python_project)"
    using d i by blast
  have c4: "toolbar busy_ide = ''disabled''
   \<and> press (compile_current_file example_env cancelling_user) busy_ide = (Returned, busy_ide)
   \<and> press (run_current_file example_env cancelling_user) busy_ide = (Returned, busy_ide)
   \<and> toolbar (mainloop_ui (snd (run_async_task_wrapper (\<lambda>s. (Raised ''boom'', s)) busy_ide))) =
       ''normal''"
    using e busy_ide_reach by simp
  have c5: "ide_reach example_env
        (snd (run_async_task_wrapper (run example_env Worker_thread (Path [''proj'', ''a.py'']))
           busy_ide)) 0"
    using f g by blast
  show ?thesis using r a c1 c2 c3 c4 c5 busy_ide_reach by blast
qed

section \<open>Running a Java file that has no class\<close>

text \<open>
  C2 at \<open>Main.java\<close> without \<open>Main.class\<close>, on a machine where \<open>javac\<close> fails and writes
  nothing. \<open>CompilerApp._run_worker\<close> calls the compile step once, and then starts
  \<open>java\<close> although the class is still not there: its Java branch has no second test of
  the class file. \<open>CompilerIDEApp._run\<close> on the same input stops after \<open>javac\<close>.
\<close>

theorem run_java_without_class:
  "\<not> path_exists (files java_project) (with_suffix (Path [''proj'', ''Main.java'']) ''.class'')
   \<and> events (snd (run_worker failing_children_env java_project)) =
       [Ev_compile,
        Ev_spawn [''javac'', ''/proj/Main.java''] ''/proj'',
        Ev_spawn [''java'', ''-cp'', ''/proj'', ''Main''] ''/proj'']
   \<and> \<not> path_exists (files (snd (run_worker failing_children_env java_project)))
         (with_suffix (Path [''proj'', ''Main.java'']) ''.class'')
   \<and> ide_events (snd (run failing_children_env Worker_thread (Path [''proj'', ''Main.java''])
        java_project_ide)) =
       [Ev_compile, Ev_spawn [''javac'', ''Main.java''] ''/proj'']"
  by (simp add: run_worker_def compile_worker_def execute_command_def run_def run_try_def
      compile_def compile_try_def run_and_report_def Let_def main_java_paths stem_main_java
      suffix_main_java java_project_def java_project_ide_def failing_children_env_def
      example_env_def initial_app_def initial_ide_def path_exists_def)

section \<open>The language resolver\<close>

text \<open>
  C3, as the sources have it. The resolver of \<open>CompilerApp\<close> maps the lower-cased
  extension \<open>.py\<close> to Python, \<open>.c\<close> and \<open>.h\<close> to C, \<open>.cpp\<close>, \<open>.cc\<close>, \<open>.cxx\<close> and
  \<open>.hpp\<close> to C++, \<open>.java\<close> to Java, and every other extension to \<open>None\<close>, without
  raising. On a file it does not resolve, the compile and the run worker return after
  writing their message to the console, and start no child. \<open>CompilerIDEApp\<close> tests the
  extension in place: outside \<open>.py\<close>, \<open>.c\<close>, \<open>.cpp\<close>, \<open>.cc\<close>, \<open>.cxx\<close> and \<open>.java\<close>
  (so for the two header extensions as well) \<open>_compile\<close> and \<open>_run\<close> return after
  appending their message, and start no child.
\<close>

theorem resolver_keyed_on_extension:
  assumes "ext = lower (path_suffix p)"
  shows "detect_language p =
           (if ext = ''.py'' then Some ''python''
            else if ext \<in> set [''.c'', ''.h''] then Some ''c''
            else if ext \<in> set [''.cpp'', ''.cc'', ''.cxx'', ''.hpp''] then Some ''cpp''
            else if ext = ''.java'' then Some ''java''
            else None)
       \<and> (active_path st = Some p \<and>
            ext \<notin> set [''.py'', ''.c'', ''.h'', ''.cpp'', ''.cc'', ''.cxx'', ''.hpp'', ''.java'']
            \<longrightarrow> fst (compile_worker env st) = Returned
              \<and> fst (run_worker env st) = Returned
              \<and> pane_queue (console (snd (compile_worker env st))) =
                  pane_queue (console st) @
                  [(''========== Compile =========='' @ newline, ''system''),
                   (''File: '' @ path_str p @ newline, ''system''),
                   (''Unsupported file type for compile.'' @ newline, ''stderr'')]
              \<and> pane_queue (console (snd (run_worker env st))) =
                  pane_queue (console st) @
                  [(''========== Run =========='' @ newline, ''system''),
                   (''File: '' @ path_str p @ newline, ''system''),
                   (''Unsupported file type for run.'' @ newline, ''stderr'')]
              \<and> spawns (new_events (events st) (events (snd (compile_worker env st)))) = []
              \<and> spawns (new_events (events st) (events (snd (run_worker env st)))) = [])
       \<and> (ext \<notin> set [''.py'', ''.c'', ''.cpp'', ''.cc'', ''.cxx'', ''.java'']
            \<longrightarrow> compile env thr p ist =
                  (Returned,
                   append_console thr (''Unsupported file type: '' @ ext @ newline)
                     (append_console thr (''Compiling '' @ relpath env p @ newline @ newline)
                        (clear_console thr (ide_event Ev_compile ist))))
              \<and> run env thr p ist =
                  (Returned,
                   append_console thr (''Unsupported file type: '' @ ext @ newline)
                     (append_console thr (''Running '' @ relpath env p @ newline @ newline)
                        (clear_console thr ist)))
              \<and> spawns (new_events (ide_events ist) (ide_events (snd (compile env thr p ist)))) = []
              \<and> spawns (new_events (ide_events ist) (ide_events (snd (run env thr p ist)))) = [])"
proof (intro conjI impI)
  show "detect_language p =
           (if ext = ''.py'' then Some ''python''
            else if ext \<in> set [''.c'', ''.h''] then Some ''c''
            else if ext \<in> set [''.cpp'', ''.cc'', ''.cxx'', ''.hpp''] then Some ''cpp''
            else if ext = ''.java'' then Some ''java''
            else None)"
    unfolding assms by (rule detect_language_cases)
next
  assume h: "active_path st = Some p \<and>
     ext \<notin> set [''.py'', ''.c'', ''.h'', ''.cpp'', ''.cc'', ''.cxx'', ''.hpp'', ''.java'']"
  then have a: "active_path st = Some p" and n: "detect_language p = None"
    using assms by (simp_all add: detect_language_cases)
  note cw = compile_worker_unsupported [OF a n, of env]
  note rw = run_worker_unsupported [OF a n, of env]
  show "fst (compile_worker env st) = Returned" by (simp add: cw)
  show "fst (run_worker env st) = Returned" by (simp add: rw)
  show "pane_queue (console (snd (compile_worker env st))) =
          pane_queue (console st) @
          [(''========== Compile =========='' @ newline, ''system''),
           (''File: '' @ path_str p @ newline, ''system''),
           (''Unsupported file type for compile.'' @ newline, ''stderr'')]"
    by (simp add: cw)
  show "pane_queue (console (snd (run_worker env st))) =
          pane_queue (console st) @
          [(''========== Run =========='' @ newline, ''system''),
           (''File: '' @ path_str p @ newline, ''system''),
           (''Unsupported file type for run.'' @ newline, ''stderr'')]"
    by (simp add: rw)
  show "spawns (new_events (events st) (events (snd (compile_worker env st)))) = []"
    by (simp add: cw)
  show "spawns (new_events (events st) (events (snd (run_worker env st)))) = []"
    by (simp add: rw)
next
  assume h: "ext \<notin> set [''.py'', ''.c'', ''.cpp'', ''.cc'', ''.cxx'', ''.java'']"
  then have n: "lower (path_suffix p) \<notin> set [''.py'', ''.c'', ''.cpp'', ''.cc'', ''.cxx'', ''.java'']"
    using assms by simp
  note c = compile_unsupported [OF n, of env thr ist]
  note r = run_unsupported [OF n, of env thr ist]
  show "compile env thr p ist =
          (Returned,
           append_console thr (''Unsupported file type: '' @ ext @ newline)
             (append_console thr (''Compiling '' @ relpath env p @ newline @ newline)
                (clear_console thr (ide_event Ev_compile ist))))"
    using c assms by simp
  show "run env thr p ist =
          (Returned,
           append_console thr (''Unsupported file type: '' @ ext @ newline)
             (append_console thr (''Running '' @ relpath env p @ newline @ newline)
                (clear_console thr ist)))"
    using r assms by simp
  show "spawns (new_events (ide_events ist) (ide_events (snd (compile env thr p ist)))) = []"
    by (simp add: c)
  show "spawns (new_events (ide_events ist) (ide_events (snd (run env thr p ist)))) = []"
    by (simp add: r)
qed

lemma suffix_notes_txt: "lower (path_suffix (Path [''proj'', ''notes.txt''])) = ''.txt''"
  by (simp add: path_suffix_def path_name_def lower_def lower_char_def Let_def)

lemma suffix_util_h: "lower (path_suffix (Path [''proj'', ''util.h''])) = ''.h''"
  by (simp add: path_suffix_def path_name_def lower_def lower_char_def Let_def)

lemma suffix_latin1:
  "lower (path_suffix (Path [''proj'', [CHR ''a'', CHR ''.'', CHR 0xC9]])) = [CHR ''.'', CHR 0xE9]"
  by (simp add: path_suffix_def path_name_def lower_def lower_char_def Let_def)

theorem resolver_keyed_on_extension_witness:
  "detect_language (Path [''proj'', ''notes.txt'']) = None
   \<and> spawns (new_events [] (events (snd (compile_worker example_env
        (initial_app\<lparr>active_path := Some (Path [''proj'', ''notes.txt''])\<rparr>))))) = []
   \<and> spawns (new_events [] (ide_events (snd (run example_env Worker_thread
        (Path [''proj'', ''notes.txt'']) initial_ide)))) = []
   \<and> run example_env Worker_thread (Path [''proj'', [CHR ''a'', CHR ''.'', CHR 0xC9]])
        initial_ide =
       (Returned,
        append_console Worker_thread (''Unsupported file type: '' @ [CHR ''.'', CHR 0xE9] @ newline)
          (append_console Worker_thread
             (''Running '' @ [CHR ''a'', CHR ''.'', CHR 0xC9] @ newline @ newline)
             (clear_console Worker_thread initial_ide)))"
proof -
  have a: "detect_language (Path [''proj'', ''notes.txt'']) = None
   \<and> spawns (new_events [] (events (snd (compile_worker example_env
        (initial_app\<lparr>active_path := Some (Path [''proj'', ''notes.txt''])\<rparr>))))) = []
   \<and> spawns (new_events [] (ide_events (snd (run example_env Worker_thread
        (Path [''proj'', ''notes.txt'']) initial_ide)))) = []"
    using resolver_keyed_on_extension [OF suffix_notes_txt [symmetric],
        of "initial_app\<lparr>active_path := Some (Path [''proj'', ''notes.txt''])\<rparr>"
           example_env Worker_thread initial_ide]
    by (simp add: initial_app_def initial_ide_def)
  have r: "relpath example_env (Path [''proj'', [CHR ''a'', CHR ''.'', CHR 0xC9]]) =
             [CHR ''a'', CHR ''.'', CHR 0xC9]"
    by (simp add: example_env_def path_name_def)
  have b: "run example_env Worker_thread (Path [''proj'', [CHR ''a'', CHR ''.'', CHR 0xC9]])
        initial_ide =
       (Returned,
        append_console Worker_thread (''Unsupported file type: '' @ [CHR ''.'', CHR 0xE9] @ newline)
          (append_console Worker_thread
             (''Running '' @ [CHR ''a'', CHR ''.'', CHR 0xC9] @ newline @ newline)
             (clear_console Worker_thread initial_ide)))"
    using resolver_keyed_on_extension [OF suffix_latin1 [symmetric],
        where env = example_env and thr = Worker_thread and ist = initial_ide]
    unfolding r by simp
  show ?thesis using a b by blast
qed

theorem resolver_header_counterexample:
  "lower (path_suffix (Path [''proj'', ''util.h''])) \<notin>
     set [''.py'', ''.c'', ''.cpp'', ''.cc'', ''.cxx'', ''.java'']
   \<and> detect_language (Path [''proj'', ''util.h'']) = Some ''c''
   \<and> spawns (events (snd (compile_worker example_env
        (initial_app\<lparr>active_path := Some (Path [''proj'', ''util.h''])\<rparr>)))) =
       [([''gcc'', ''/proj/util.h'', ''-O2'', ''-o'', ''/proj/build/util''], ''/proj'')]"
  by (simp add: suffix_util_h detect_language_cases compile_worker_def Let_def
      example_env_def initial_app_def path_str_def parent_def joinpath_def stem_def
      path_name_def)

section \<open>Working directories\<close>






section \<open>A missing compiler\<close>

text \<open>
  C5 at \<open>Main.java\<close> without \<open>Main.class\<close>, on a machine with \<open>java\<close> and without
  \<open>javac\<close>. \<open>CompilerApp._run_worker\<close> reports that \<open>javac\<close> is not on the search
  path before any child is started, and then starts \<open>java\<close> all the same, so the report
  is followed by the output and the exit line of a run that had nothing to run.
  \<open>CompilerIDEApp._run\<close> on the same input starts nothing.
\<close>

theorem java_started_after_javac_missing:
  "\<not> which no_javac_env ''javac''
   \<and> pane_queue (console (snd (run_worker no_javac_env java_project))) =
       [(''========== Run =========='' @ newline, ''system''),
        (''File: /proj/Main.java'' @ newline, ''system''),
        (''Class not found. Compiling first...'' @ newline, ''system''),
        (''========== Compile =========='' @ newline, ''system''),
        (''File: /proj/Main.java'' @ newline, ''system''),
        (''javac not found in PATH'' @ newline, ''stderr''),
        (''$ java -cp /proj Main'' @ newline, ''system''),
        (''[exit 0]'' @ newline, ''system'')]
   \<and> events (snd (run_worker no_javac_env java_project)) =
       [Ev_compile, Ev_spawn [''java'', ''-cp'', ''/proj'', ''Main''] ''/proj'']
   \<and> ide_events (snd (run no_javac_env Worker_thread (Path [''proj'', ''Main.java''])
        java_project_ide)) = [Ev_compile]"
  by (simp add: run_worker_def compile_worker_def execute_command_def run_def run_try_def
      compile_def compile_try_def run_and_report_def Let_def main_java_paths stem_main_java
      suffix_main_java java_project_def java_project_ide_def no_javac_env_def
      example_env_def initial_app_def initial_ide_def path_exists_def quote_arg_def
      isspace_def str_int_def digits.simps)

section \<open>The process executor\<close>

text \<open>
  C6, as the sources have it. \<open>_execute_command\<close> always returns. When the child
  completes, whatever its return code, the console receives the echoed command, the
  captured standard output and standard error when they are not empty, and the line
  \<open>[exit <code>]\<close> with the return code in decimal; when \<open>subprocess.run\<close> raises, before
  or after the child has run, the console receives \<open>Execution failed: <message>\<close>
  instead and no exit line. \<open>CompilerIDEApp\<close> has no executor of its own:
  \<open>_handle_completed_process\<close> appends the two captured streams and the line
  \<open>[exit code <code>]\<close> between two newlines, and \<open>_compile\<close> and \<open>_run\<close> always return.
  At each of the places where they start a child (the four compilers of \<open>_compile\<close>; the
  interpreter, the binary and the Java runtime of \<open>_run\<close>, the last two possibly after
  a compile step), an exception of \<open>subprocess.run\<close> ends the function with the line
  \<open>Error: <message>\<close> after the echoed command, and a completed child is handed to
  \<open>_handle_completed_process\<close>.
\<close>

theorem executor_never_raises:
  "fst (execute_command env cmd cwd st) = Returned
   \<and> files (snd (execute_command env cmd cwd st)) = files_after env cmd cwd (files st)
   \<and> (subprocess_run env cmd cwd (files st) = Completed proc \<longrightarrow>
        pane_queue (console (snd (execute_command env cmd cwd st))) =
          pane_queue (console st) @
          [(''$ '' @ join '' '' (map quote_arg cmd) @ newline, ''system'')] @
          (if stdout proc \<noteq> [] then [(stdout proc, ''stdout'')] else []) @
          (if stderr proc \<noteq> [] then [(stderr proc, ''stderr'')] else []) @
          [(''[exit '' @ str_int (returncode proc) @ '']'' @ newline, ''system'')])
   \<and> (raised (subprocess_run env cmd cwd (files st)) = Some ex \<longrightarrow>
        pane_queue (console (snd (execute_command env cmd cwd st))) =
          pane_queue (console st) @
          [(''$ '' @ join '' '' (map quote_arg cmd) @ newline, ''system''),
           (''Execution failed: '' @ ex @ newline, ''stderr'')])
   \<and> console_text (handle_completed_process Main_thread proc ist) =
        console_text ist @ stdout proc @ stderr proc @
        newline @ ''[exit code '' @ str_int (returncode proc) @ '']'' @ newline
   \<and> console_text (mainloop_ui (handle_completed_process Worker_thread proc ist)) =
        console_text (mainloop_ui ist) @ stdout proc @ stderr proc @
        newline @ ''[exit code '' @ str_int (returncode proc) @ '']'' @ newline
   \<and> fst (compile env thr p ist) = Returned
   \<and> fst (run env thr p ist) = Returned
   \<and> ((lower (path_suffix p) = ''.py''
           \<and> ccmd = [sys_executable env, ''-m'', ''py_compile'', path_name p]
           \<and> k = (\<lambda>code s. if code = 0
                     then append_console thr
                            (newline @ ''Python byte-compile successful.'' @ newline) s
                     else s)
         \<or> lower (path_suffix p) = ''.c'' \<and> which env ''gcc''
           \<and> ccmd = [''gcc'', ''-O2'', ''-Wall'', ''-o'', path_name (with_suffix p []), path_name p]
           \<and> k = (\<lambda>code s. if code = 0 then s\<lparr>last_executable := Some (with_suffix p [])\<rparr>
                     else s)
         \<or> lower (path_suffix p) \<in> set [''.cpp'', ''.cc'', ''.cxx''] \<and> which env ''g++''
           \<and> ccmd = [''g++'', ''-std=c++17'', ''-O2'', ''-Wall'', ''-o'',
                     path_name (with_suffix p []), path_name p]
           \<and> k = (\<lambda>code s. if code = 0 then s\<lparr>last_executable := Some (with_suffix p [])\<rparr>
                     else s)
         \<or> lower (path_suffix p) = ''.java'' \<and> which env ''javac''
           \<and> ccmd = [''javac'', path_name p]
           \<and> k = (\<lambda>code s. if code = 0
                     then s\<lparr>last_executable := Some (with_suffix p ''.class'')\<rparr>
                     else s))
        \<and> cst = append_console thr (''Compiling '' @ relpath env p @ newline @ newline)
                  (clear_console thr (ide_event Ev_compile ist))
        \<and> cecho = (ide_event (Ev_spawn ccmd (path_str (parent p)))
                     (append_console thr (''$ '' @ join '' '' ccmd @ newline) cst))
                   \<lparr>ide_files := files_after env ccmd (path_str (parent p)) (ide_files ist)\<rparr>
        \<longrightarrow>
          (raised (subprocess_run env ccmd (path_str (parent p)) (ide_files ist)) = Some ex \<longrightarrow>
             compile env thr p ist =
               (Returned, append_console thr (''Error: '' @ ex @ newline) cecho))
          \<and> (subprocess_run env ccmd (path_str (parent p)) (ide_files ist) = Completed proc \<longrightarrow>
               compile env thr p ist =
                 (Returned, k (returncode proc) (handle_completed_process thr proc cecho))))
   \<and> (rst = append_console thr (''Running '' @ relpath env p @ newline @ newline)
               (clear_console thr ist)
        \<and> (lower (path_suffix p) = ''.py'' \<and> rcmd = [sys_executable env, path_name p] \<and> stc = rst
           \<or> (lower (path_suffix p) = ''.c'' \<or> lower (path_suffix p) \<in> set [''.cpp'', ''.cc'', ''.cxx''])
             \<and> rcmd = [path_str (with_suffix p [])]
             \<and> stc = (if path_exists (ide_files rst) (with_suffix p []) then rst
                      else snd (compile env thr p
                             (append_console thr
                                (''Executable not found. Compiling first...'' @ newline @ newline)
                                rst)))
             \<and> path_exists (ide_files stc) (with_suffix p [])
           \<or> lower (path_suffix p) = ''.java'' \<and> which env ''java''
             \<and> rcmd = [''java'', ''-cp'', ''.'', stem p]
             \<and> stc = (if path_exists (ide_files rst) (with_suffix p ''.class'') then rst
                      else snd (compile env thr p
                             (append_console thr
                                (''Class not found. Compiling first...'' @ newline @ newline) rst)))
             \<and> path_exists (ide_files stc) (with_suffix p ''.class''))
        \<and> recho = (ide_event (Ev_spawn rcmd (path_str (parent p)))
                     (append_console thr (''$ '' @ join '' '' rcmd @ newline) stc))
                   \<lparr>ide_files := files_after env rcmd (path_str (parent p)) (ide_files stc)\<rparr>
        \<longrightarrow>
          (raised (subprocess_run env rcmd (path_str (parent p)) (ide_files stc)) = Some ex \<longrightarrow>
             run env thr p ist =
               (Returned, append_console thr (''Error: '' @ ex @ newline) recho))
          \<and> (subprocess_run env rcmd (path_str (parent p)) (ide_files stc) = Completed proc \<longrightarrow>
               run env thr p ist = (Returned, handle_completed_process thr proc recho)))"
proof (intro conjI)
  show "fst (execute_command env cmd cwd st) = Returned" by (rule execute_command_returns)
  show "files (snd (execute_command env cmd cwd st)) = files_after env cmd cwd (files st)"
    by (rule execute_command_files)
  show "subprocess_run env cmd cwd (files st) = Completed proc \<longrightarrow>
        pane_queue (console (snd (execute_command env cmd cwd st))) =
          pane_queue (console st) @
          [(''$ '' @ join '' '' (map quote_arg cmd) @ newline, ''system'')] @
          (if stdout proc \<noteq> [] then [(stdout proc, ''stdout'')] else []) @
          (if stderr proc \<noteq> [] then [(stderr proc, ''stderr'')] else []) @
          [(''[exit '' @ str_int (returncode proc) @ '']'' @ newline, ''system'')]"
    by (intro impI) (rule execute_command_queue_completed)
  show "raised (subprocess_run env cmd cwd (files st)) = Some ex \<longrightarrow>
        pane_queue (console (snd (execute_command env cmd cwd st))) =
          pane_queue (console st) @
          [(''$ '' @ join '' '' (map quote_arg cmd) @ newline, ''system''),
           (''Execution failed: '' @ ex @ newline, ''stderr'')]"
    by (intro impI) (rule execute_command_queue_failed)
  show "console_text (handle_completed_process Main_thread proc ist) =
        console_text ist @ stdout proc @ stderr proc @
        newline @ ''[exit code '' @ str_int (returncode proc) @ '']'' @ newline"
    by (rule handle_completed_process_main)
  show "console_text (mainloop_ui (handle_completed_process Worker_thread proc ist)) =
        console_text (mainloop_ui ist) @ stdout proc @ stderr proc @
        newline @ ''[exit code '' @ str_int (returncode proc) @ '']'' @ newline"
    by (rule handle_completed_process_worker)
  show "fst (compile env thr p ist) = Returned" by (rule compile_returns)
  show "fst (run env thr p ist) = Returned" by (rule run_returns)
next
  show "(lower (path_suffix p) = ''.py''
           \<and> ccmd = [sys_executable env, ''-m'', ''py_compile'', path_name p]
           \<and> k = (\<lambda>code s. if code = 0
                     then append_console thr
                            (newline @ ''Python byte-compile successful.'' @ newline) s
                     else s)
         \<or> lower (path_suffix p) = ''.c'' \<and> which env ''gcc''
           \<and> ccmd = [''gcc'', ''-O2'', ''-Wall'', ''-o'', path_name (with_suffix p []), path_name p]
           \<and> k = (\<lambda>code s. if code = 0 then s\<lparr>last_executable := Some (with_suffix p [])\<rparr>
                     else s)
         \<or> lower (path_suffix p) \<in> set [''.cpp'', ''.cc'', ''.cxx''] \<and> which env ''g++''
           \<and> ccmd = [''g++'', ''-std=c++17'', ''-O2'', ''-Wall'', ''-o'',
                     path_name (with_suffix p []), path_name p]
           \<and> k = (\<lambda>code s. if code = 0 then s\<lparr>last_executable := Some (with_suffix p [])\<rparr>
                     else s)
         \<or> lower (path_suffix p) = ''.java'' \<and> which env ''javac''
           \<and> ccmd = [''javac'', path_name p]
           \<and> k = (\<lambda>code s. if code = 0
                     then s\<lparr>last_executable := Some (with_suffix p ''.class'')\<rparr>
                     else s))
        \<and> cst = append_console thr (''Compiling '' @ relpath env p @ newline @ newline)
                  (clear_console thr (ide_event Ev_compile ist))
        \<and> cecho = (ide_event (Ev_spawn ccmd (path_str (parent p)))
                     (append_console thr (''$ '' @ join '' '' ccmd @ newline) cst))
                   \<lparr>ide_files := files_after env ccmd (path_str (parent p)) (ide_files ist)\<rparr>
        \<longrightarrow>
          (raised (subprocess_run env ccmd (path_str (parent p)) (ide_files ist)) = Some ex \<longrightarrow>
             compile env thr p ist =
               (Returned, append_console thr (''Error: '' @ ex @ newline) cecho))
          \<and> (subprocess_run env ccmd (path_str (parent p)) (ide_files ist) = Completed proc \<longrightarrow>
               compile env thr p ist =
                 (Returned, k (returncode proc) (handle_completed_process thr proc cecho)))"
    by (intro impI, elim conjE, rule compile_site_result)
next
  show "rst = append_console thr (''Running '' @ relpath env p @ newline @ newline)
               (clear_console thr ist)
        \<and> (lower (path_suffix p) = ''.py'' \<and> rcmd = [sys_executable env, path_name p] \<and> stc = rst
           \<or> (lower (path_suffix p) = ''.c'' \<or> lower (path_suffix p) \<in> set [''.cpp'', ''.cc'', ''.cxx''])
             \<and> rcmd = [path_str (with_suffix p [])]
             \<and> stc = (if path_exists (ide_files rst) (with_suffix p []) then rst
                      else snd (compile env thr p
                             (append_console thr
                                (''Executable not found. Compiling first...'' @ newline @ newline)
                                rst)))
             \<and> path_exists (ide_files stc) (with_suffix p [])
           \<or> lower (path_suffix p) = ''.java'' \<and> which env ''java''
             \<and> rcmd = [''java'', ''-cp'', ''.'', stem p]
             \<and> stc = (if path_exists (ide_files rst) (with_suffix p ''.class'') then rst
                      else snd (compile env thr p
                             (append_console thr
                                (''Class not found. Compiling first...'' @ newline @ newline) rst)))
             \<and> path_exists (ide_files stc) (with_suffix p ''.class''))
        \<and> recho = (ide_event (Ev_spawn rcmd (path_str (parent p)))
                     (append_console thr (''$ '' @ join '' '' rcmd @ newline) stc))
                   \<lparr>ide_files := files_after env rcmd (path_str (parent p)) (ide_files stc)\<rparr>
        \<longrightarrow>
          (raised (subprocess_run env rcmd (path_str (parent p)) (ide_files stc)) = Some ex \<longrightarrow>
             run env thr p ist =
               (Returned, append_console thr (''Error: '' @ ex @ newline) recho))
          \<and> (subprocess_run env rcmd (path_str (parent p)) (ide_files stc) = Completed proc \<longrightarrow>
               run env thr p ist = (Returned, handle_completed_process thr proc recho))"
    by (intro impI, elim conjE, rule run_site_result)
qed

theorem executor_never_raises_witness:
  "pane_queue (console (snd (execute_command noisy_env [''/usr/bin/python3'', ''/proj/a.py'']
      ''/proj'' python_project))) =
     [(''$ /usr/bin/python3 /proj/a.py'' @ newline, ''system''),
      (''out'', ''stdout''), (''warn'', ''stderr''),
      (''[exit 3]'' @ newline, ''system'')]
   \<and> pane_queue (console (snd (execute_command unspawnable_env
        [''/usr/bin/python3'', ''/proj/a.py''] ''/proj'' python_project))) =
       [(''$ /usr/bin/python3 /proj/a.py'' @ newline, ''system''),
        (''Execution failed: Permission denied'' @ newline, ''stderr'')]
   \<and> run undecodable_env Worker_thread (Path [''proj'', ''a.py'']) python_project_ide =
       (Returned,
        append_console Worker_thread (''Error: invalid start byte'' @ newline)
          (ide_event (Ev_spawn [''/usr/bin/python3'', ''a.py''] ''/proj'')
             (append_console Worker_thread (''$ /usr/bin/python3 a.py'' @ newline)
                (append_console Worker_thread (''Running a.py'' @ newline @ newline)
                   (clear_console Worker_thread python_project_ide)))))"
proof -
  let ?cmd = "[''/usr/bin/python3'', ''/proj/a.py'']"
  let ?p = "Path [''proj'', ''a.py'']"
  have c: "subprocess_run noisy_env ?cmd ''/proj'' (files python_project) =
             Completed (CompletedProcess ''out'' ''warn'' 3)"
    by (simp add: noisy_env_def example_env_def)
  have r: "raised (subprocess_run unspawnable_env ?cmd ''/proj'' (files python_project)) =
             Some ''Permission denied''"
    by (simp add: unspawnable_env_def example_env_def)
  have q: "pane_queue (console python_project) = []"
    by (simp add: python_project_def initial_app_def)
  have j: "join '' '' (map quote_arg ?cmd) = ''/usr/bin/python3 /proj/a.py''"
    by (simp add: quote_arg_def isspace_def)
  have s: "str_int 3 = ''3''" by (simp add: str_int_def digits.simps)
  have w1: "pane_queue (console (snd (execute_command noisy_env ?cmd ''/proj'' python_project))) =
     [(''$ /usr/bin/python3 /proj/a.py'' @ newline, ''system''),
      (''out'', ''stdout''), (''warn'', ''stderr''),
      (''[exit 3]'' @ newline, ''system'')]"
    using executor_never_raises [where env = noisy_env and cmd = ?cmd and cwd = "''/proj''"
        and st = python_project and proc = "CompletedProcess ''out'' ''warn'' 3"] c q j s
    by simp
  have w2: "pane_queue (console (snd (execute_command unspawnable_env ?cmd ''/proj''
              python_project))) =
       [(''$ /usr/bin/python3 /proj/a.py'' @ newline, ''system''),
        (''Execution failed: Permission denied'' @ newline, ''stderr'')]"
    using executor_never_raises [where env = unspawnable_env and cmd = ?cmd
        and cwd = "''/proj''" and st = python_project and ex = "''Permission denied''"] r q j
    by simp
  let ?rst = "append_console Worker_thread (''Running '' @ relpath undecodable_env ?p @ newline @ newline)
               (clear_console Worker_thread python_project_ide)"
  let ?rcmd = "[sys_executable undecodable_env, path_name ?p]"
  let ?recho = "(ide_event (Ev_spawn ?rcmd (path_str (parent ?p)))
                     (append_console Worker_thread (''$ '' @ join '' '' ?rcmd @ newline) ?rst))
                   \<lparr>ide_files := files_after undecodable_env ?rcmd (path_str (parent ?p))
                                    (ide_files ?rst)\<rparr>"
  have d: "raised (subprocess_run undecodable_env ?rcmd (path_str (parent ?p)) (ide_files ?rst)) =
             Some ''invalid start byte''"
    by (simp add: undecodable_env_def example_env_def)
  have site: "lower (path_suffix ?p) = ''.py'' \<and> ?rcmd = [sys_executable undecodable_env, path_name ?p]
                \<and> ?rst = ?rst"
    by (simp add: suffix_a_py)
  have "run undecodable_env Worker_thread ?p python_project_ide =
          (Returned, append_console Worker_thread (''Error: '' @ ''invalid start byte'' @ newline) ?recho)"
    using executor_never_raises [where env = undecodable_env and thr = Worker_thread and p = ?p
        and ist = python_project_ide and rst = ?rst and rcmd = ?rcmd and stc = ?rst
        and recho = ?recho and ex = "''invalid start byte''"] d site
    by blast
  moreover have "?recho =
          ide_event (Ev_spawn [''/usr/bin/python3'', ''a.py''] ''/proj'')
             (append_console Worker_thread (''$ /usr/bin/python3 a.py'' @ newline)
                (append_console Worker_thread (''Running a.py'' @ newline @ newline)
                   (clear_console Worker_thread python_project_ide)))"
    by (simp add: files_after_def undecodable_env_def example_env_def a_py_paths ide_event_def
        append_console_def clear_console_def call_ui_def)
  ultimately have w3: "run undecodable_env Worker_thread ?p python_project_ide =
       (Returned,
        append_console Worker_thread (''Error: invalid start byte'' @ newline)
          (ide_event (Ev_spawn [''/usr/bin/python3'', ''a.py''] ''/proj'')
             (append_console Worker_thread (''$ /usr/bin/python3 a.py'' @ newline)
                (append_console Worker_thread (''Running a.py'' @ newline @ newline)
                   (clear_console Worker_thread python_project_ide)))))"
    by simp
  show ?thesis using w1 w2 w3 by blast
qed

theorem exit_line_format_counterexample:
  "console_text (mainloop_ui (snd (run noisy_env Worker_thread (Path [''proj'', ''a.py''])
      python_project_ide))) =
     ''Running a.py'' @ newline @ newline @ ''$ /usr/bin/python3 a.py'' @ newline @
     ''out'' @ ''warn'' @ newline @ ''[exit code 3]'' @ newline
   \<and> \<not> contains (console_text (mainloop_ui (snd (run noisy_env Worker_thread
          (Path [''proj'', ''a.py'']) python_project_ide)))) ''[exit 3]''"
  by (simp add: run_def run_try_def run_and_report_def handle_completed_process_def Let_def
      suffix_a_py a_py_paths noisy_env_def example_env_def python_project_ide_def
      initial_ide_def append_console_def clear_console_def call_ui_def ide_event_def
      mainloop_ui_def str_int_def digits.simps newline_def)

section \<open>Unsaved changes\<close>

text \<open>
  C7. A compile or run action on an editor with unsaved changes opens its dialog before
  anything else. In \<open>CompilerApp\<close>, when the user cancels, the action ends there: the
  dialog is all that happened, so the running flag and the files are as before and
  neither a thread nor a child was started. In \<open>CompilerIDEApp\<close> the question has no
  cancel button: with a file open, answering no (or closing the dialog) ends the action
  in the same way; with no file open the action ends after a notice asking to open or
  save one.
\<close>

theorem cancel_aborts_before_dispatch:
  "(editor_dirty st \<longrightarrow>
      (\<exists>rest. events (action_compile env u st) =
                events st @ Ev_dialog ''Unsaved Changes'' # rest)
      \<and> (\<exists>rest. events (action_run env u st) =
                  events st @ Ev_dialog ''Unsaved Changes'' # rest))
   \<and> (editor_dirty st \<and> askyesnocancel u = None \<longrightarrow>
        action_compile env u st = record_event (Ev_dialog ''Unsaved Changes'') st
        \<and> action_run env u st = record_event (Ev_dialog ''Unsaved Changes'') st
        \<and> running (action_compile env u st) = running st
        \<and> running (action_run env u st) = running st
        \<and> files (action_compile env u st) = files st
        \<and> files (action_run env u st) = files st
        \<and> threads (new_events (events st) (events (action_compile env u st))) = []
        \<and> threads (new_events (events st) (events (action_run env u st))) = []
        \<and> spawns (new_events (events st) (events (action_compile env u st))) = []
        \<and> spawns (new_events (events st) (events (action_run env u st))) = [])
   \<and> (current_file ist \<noteq> None \<and> editor_modified ist \<longrightarrow>
        (\<exists>rest. ide_events (snd (compile_current_file env u ist)) =
                  ide_events ist @ Ev_dialog ''Unsaved changes'' # rest)
        \<and> (\<exists>rest. ide_events (snd (run_current_file env u ist)) =
                    ide_events ist @ Ev_dialog ''Unsaved changes'' # rest))
   \<and> (current_file ist \<noteq> None \<and> editor_modified ist \<and> \<not> askyesno u \<longrightarrow>
        compile_current_file env u ist =
          (Returned, ide_event (Ev_dialog ''Unsaved changes'') ist)
        \<and> run_current_file env u ist =
            (Returned, ide_event (Ev_dialog ''Unsaved changes'') ist))
   \<and> (current_file ist = None \<longrightarrow>
        compile_current_file env u ist = (Returned, ide_event (Ev_dialog ''No file'') ist)
        \<and> run_current_file env u ist = (Returned, ide_event (Ev_dialog ''No file'') ist))"
proof (intro conjI impI)
  assume d: "editor_dirty st"
  show "\<exists>rest. events (action_compile env u st) =
                events st @ Ev_dialog ''Unsaved Changes'' # rest"
    using action_dispatch_events [of action_compile env u st] d by auto
  show "\<exists>rest. events (action_run env u st) =
                events st @ Ev_dialog ''Unsaved Changes'' # rest"
    using action_dispatch_events [of action_run env u st] d by auto
next
  assume h: "editor_dirty st \<and> askyesnocancel u = None"
  then have e: "ensure_save_before_action env u st =
      (False, record_event (Ev_dialog ''Unsaved Changes'') st)"
    using ensure_save_cancel [of st u env] by simp
  show c: "action_compile env u st = record_event (Ev_dialog ''Unsaved Changes'') st"
    by (simp add: action_compile_def e)
  show r: "action_run env u st = record_event (Ev_dialog ''Unsaved Changes'') st"
    by (simp add: action_run_def e)
  show "running (action_compile env u st) = running st" by (simp add: c)
  show "running (action_run env u st) = running st" by (simp add: r)
  show "files (action_compile env u st) = files st" by (simp add: c)
  show "files (action_run env u st) = files st" by (simp add: r)
  show "threads (new_events (events st) (events (action_compile env u st))) = []"
    by (simp add: c)
  show "threads (new_events (events st) (events (action_run env u st))) = []"
    by (simp add: r)
  show "spawns (new_events (events st) (events (action_compile env u st))) = []"
    by (simp add: c)
  show "spawns (new_events (events st) (events (action_run env u st))) = []"
    by (simp add: r)
next
  assume h: "current_file ist \<noteq> None \<and> editor_modified ist"
  show "\<exists>rest. ide_events (snd (compile_current_file env u ist)) =
                  ide_events ist @ Ev_dialog ''Unsaved changes'' # rest"
    using current_file_dispatch_events [of compile_current_file ist env u] h by simp
  show "\<exists>rest. ide_events (snd (run_current_file env u ist)) =
                    ide_events ist @ Ev_dialog ''Unsaved changes'' # rest"
    using current_file_dispatch_events [of run_current_file ist env u] h by simp
next
  assume h: "current_file ist \<noteq> None \<and> editor_modified ist \<and> \<not> askyesno u"
  then have e: "ensure_current_file_saved env u ist =
      (False, ide_event (Ev_dialog ''Unsaved changes'') ist)"
    using ensure_current_file_saved_declined [of ist u env] by simp
  show "compile_current_file env u ist =
          (Returned, ide_event (Ev_dialog ''Unsaved changes'') ist)"
    by (simp add: compile_current_file_def e)
  show "run_current_file env u ist =
            (Returned, ide_event (Ev_dialog ''Unsaved changes'') ist)"
    by (simp add: run_current_file_def e)
next
  assume h: "current_file ist = None"
  then have e: "ensure_current_file_saved env u ist =
      (False, ide_event (Ev_dialog ''No file'') ist)"
    by (rule ensure_current_file_saved_no_file)
  show "compile_current_file env u ist = (Returned, ide_event (Ev_dialog ''No file'') ist)"
    by (simp add: compile_current_file_def e)
  show "run_current_file env u ist = (Returned, ide_event (Ev_dialog ''No file'') ist)"
    by (simp add: run_current_file_def e)
qed

theorem cancel_aborts_before_dispatch_witness:
  "action_run example_env cancelling_user
      (initial_app\<lparr>active_path := Some (Path [''proj'', ''a.py'']), editor_dirty := True\<rparr>) =
     record_event (Ev_dialog ''Unsaved Changes'')
       (initial_app\<lparr>active_path := Some (Path [''proj'', ''a.py'']), editor_dirty := True\<rparr>)
   \<and> \<not> running (action_run example_env cancelling_user
          (initial_app\<lparr>active_path := Some (Path [''proj'', ''a.py'']), editor_dirty := True\<rparr>))
   \<and> run_current_file example_env cancelling_user
        (initial_ide\<lparr>current_file := Some (Path [''proj'', ''a.py'']), editor_modified := True\<rparr>) =
       (Returned, ide_event (Ev_dialog ''Unsaved changes'')
          (initial_ide\<lparr>current_file := Some (Path [''proj'', ''a.py'']),
             editor_modified := True\<rparr>))"
proof -
  let ?st = "initial_app\<lparr>active_path := Some (Path [''proj'', ''a.py'']), editor_dirty := True\<rparr>"
  let ?ist = "initial_ide\<lparr>current_file := Some (Path [''proj'', ''a.py'']),
                 editor_modified := True\<rparr>"
  have a: "editor_dirty ?st \<and> askyesnocancel cancelling_user = None"
    by (simp add: cancelling_user_def)
  have b: "current_file ?ist \<noteq> None \<and> editor_modified ?ist \<and> \<not> askyesno cancelling_user"
    by (simp add: cancelling_user_def)
  have r: "\<not> running ?st" by (simp add: initial_app_def)
  show ?thesis
    using cancel_aborts_before_dispatch [of ?st example_env cancelling_user ?ist] a b r
    by simp
qed

section \<open>Order of the output\<close>

text \<open>
  C8. Two writes that one task issues in sequence reach the visible text in that order,
  whatever their tags. In \<open>ConsolePane\<close> the queue is drained in the order of the puts:
  with \<open>a\<close> and \<open>b\<close> not empty, the texts shown after the next flush are those shown
  before, then \<open>a\<close>, then what other writers put in between, then \<open>b\<close>; this holds as well
  when the flush runs between the two writes. In \<open>CompilerIDEApp\<close> two appends from a
  worker thread are handed to the main loop, which runs them in order after the calls
  already pending; two appends on the main thread are applied at once, in order.
\<close>

theorem writes_shown_in_order:
  assumes "a \<noteq> []" and "b \<noteq> []"
  shows "map fst (pane_text (flush_queue (pane_write b tb
             (fold (\<lambda>(t, g). pane_write t g) between (pane_write a ta cp))))) =
           map fst (pane_text (flush_queue cp)) @ [a] @
           filter (\<lambda>t. t \<noteq> []) (map fst between) @ [b]
       \<and> map fst (pane_text (flush_queue (pane_write b tb (flush_queue (pane_write a ta cp))))) =
           map fst (pane_text (flush_queue cp)) @ [a, b]
       \<and> console_text (mainloop_ui (append_console Worker_thread b
             (append_console Worker_thread a ist))) =
           console_text (mainloop_ui ist) @ a @ b
       \<and> console_text (append_console Main_thread b (append_console Main_thread a ist)) =
           console_text ist @ a @ b"
proof (intro conjI)
  show "map fst (pane_text (flush_queue (pane_write b tb
             (fold (\<lambda>(t, g). pane_write t g) between (pane_write a ta cp))))) =
           map fst (pane_text (flush_queue cp)) @ [a] @
           filter (\<lambda>t. t \<noteq> []) (map fst between) @ [b]"
    using assms by (simp add: flush_queue_texts pane_writes_queue pane_writes_text)
  show "map fst (pane_text (flush_queue (pane_write b tb (flush_queue (pane_write a ta cp))))) =
           map fst (pane_text (flush_queue cp)) @ [a, b]"
    using assms by (simp add: flush_queue_texts)
  have "append_console Worker_thread b (append_console Worker_thread a ist) =
          ist\<lparr>ui_calls := ui_calls ist @ [Do_append a, Do_append b]\<rparr>"
    by (simp add: append_console_worker)
  then show "console_text (mainloop_ui (append_console Worker_thread b
             (append_console Worker_thread a ist))) =
           console_text (mainloop_ui ist) @ a @ b"
    by (simp add: mainloop_ui_append)
  show "console_text (append_console Main_thread b (append_console Main_thread a ist)) =
           console_text ist @ a @ b"
    by (simp add: append_console_main)
qed

theorem writes_shown_in_order_witness:
  "pane_text (flush_queue (pane_write ''B'' ''stdout''
      (pane_write ''A'' ''system'' \<lparr>pane_queue = [], pane_text = []\<rparr>))) =
     [(''A'', Some ''system''), (''B'', Some ''stdout'')]
   \<and> map fst (pane_text (flush_queue (pane_write ''B'' ''stdout''
      (fold (\<lambda>(t, g). pane_write t g) [] (pane_write ''A'' ''system''
         \<lparr>pane_queue = [], pane_text = []\<rparr>))))) = [''A'', ''B'']
   \<and> console_text (mainloop_ui (append_console Worker_thread ''B''
        (append_console Worker_thread ''A'' initial_ide))) = ''AB''"
proof -
  have n: "''A'' \<noteq> []" "''B'' \<noteq> []" by simp_all
  have e: "pane_text (flush_queue (pane_write ''B'' ''stdout''
      (pane_write ''A'' ''system'' \<lparr>pane_queue = [], pane_text = []\<rparr>))) =
     [(''A'', Some ''system''), (''B'', Some ''stdout'')]"
    by (simp add: flush_queue_def pane_write_def pane_append_def)
  have i: "console_text (mainloop_ui initial_ide) = []"
    by (simp add: mainloop_ui_def initial_ide_def)
  show ?thesis
    using writes_shown_in_order [OF n, of "''stdout''" "[]" "''system''"
        "\<lparr>pane_queue = [], pane_text = []\<rparr>" initial_ide] e i
    by (simp add: flush_queue_def)
qed

section \<open>Saving the editor\<close>

text \<open>
  C9, as the sources have it. \<open>CodeEditor.save_file\<close> writes the content of the editor
  as it is. \<open>CompilerIDEApp.save_current_file\<close> takes the text of the widget up to
  \<open>END\<close>, which is the content followed by the final newline of the widget, and writes
  that; when the content is nothing but whitespace it writes the empty string instead.
\<close>

theorem save_writes_editor_text:
  "(write_error env p (files st) = None \<longrightarrow>
      fst (save_file env p st) = Returned
      \<and> files (snd (save_file env p st)) p = Some (editor_content st))
   \<and> (current_file ist = Some p \<and> write_error env p (ide_files ist) = None \<longrightarrow>
        ide_files (save_current_file env u ist) p =
          Some (if list_all isspace (editor_text ist) then []
                else editor_text ist @ newline))
   \<and> (current_file ist = None \<and> asksaveasfilename u = Some p \<and>
        write_error env p (ide_files ist) = None \<longrightarrow>
        ide_files (save_current_file env u ist) p =
          Some (if list_all isspace (editor_text ist) then []
                else editor_text ist @ newline))"
proof (intro conjI impI)
  assume "write_error env p (files st) = None"
  then show "fst (save_file env p st) = Returned"
    and "files (snd (save_file env p st)) p = Some (editor_content st)"
    by (simp_all add: save_file_def Let_def)
next
  assume h: "current_file ist = Some p \<and> write_error env p (ide_files ist) = None"
  then have "save_current_file env u ist = save_to env p ist"
    by (simp add: save_current_file_def)
  then show "ide_files (save_current_file env u ist) p =
          Some (if list_all isspace (editor_text ist) then []
                else editor_text ist @ newline)"
    using h save_to_written [of env p ist] by simp
next
  assume h: "current_file ist = None \<and> asksaveasfilename u = Some p \<and>
        write_error env p (ide_files ist) = None"
  let ?st = "(ide_event (Ev_dialog ''asksaveasfilename'') ist)\<lparr>current_file := Some p\<rparr>"
  have "save_current_file env u ist = save_to env p ?st"
    using h by (simp add: save_current_file_def Let_def)
  moreover have "ide_files ?st = ide_files ist" and "editor_text ?st = editor_text ist"
    by (simp_all add: ide_event_def)
  ultimately show "ide_files (save_current_file env u ist) p =
          Some (if list_all isspace (editor_text ist) then []
                else editor_text ist @ newline)"
    using h save_to_written [of env p ?st] by simp
qed

theorem save_writes_editor_text_witness:
  "files (snd (save_file example_env (Path [''proj'', ''a.py''])
      (initial_app\<lparr>editor_content := ''x = 1''\<rparr>))) (Path [''proj'', ''a.py'']) = Some ''x = 1''
   \<and> ide_files (save_current_file example_env cancelling_user
        (initial_ide\<lparr>current_file := Some (Path [''proj'', ''a.py'']), editor_text := ''x = 1''\<rparr>))
        (Path [''proj'', ''a.py'']) = Some (''x = 1'' @ newline)"
  using save_writes_editor_text [of example_env "Path [''proj'', ''a.py'']"
      "initial_app\<lparr>editor_content := ''x = 1''\<rparr>"
      "initial_ide\<lparr>current_file := Some (Path [''proj'', ''a.py'']), editor_text := ''x = 1''\<rparr>"
      cancelling_user]
  by (simp add: example_env_def isspace_def)

theorem save_not_verbatim_counterexample:
  "ide_files (save_current_file example_env cancelling_user
      (initial_ide\<lparr>current_file := Some (Path [''proj'', ''a.py'']), editor_text := '' ''\<rparr>))
      (Path [''proj'', ''a.py'']) = Some []
   \<and> ide_files (save_current_file example_env cancelling_user
        (initial_ide\<lparr>current_file := Some (Path [''proj'', ''a.py'']), editor_text := ''x''\<rparr>))
        (Path [''proj'', ''a.py'']) = Some [CHR ''x'', CHR 0x0A]"
  by (simp add: save_current_file_def save_to_def Let_def editor_get_end_def endswith_def
      strip_def newline_def isspace_def example_env_def set_status_def call_ui_def)

section \<open>Header files\<close>



end
